theory Spec2Isabelle
  imports Complex_Main
begin

section \<open>Data model\<close>

text \<open>
  A factory and a solver instance are child entities of a game. The merge and the store
  actions read only their \<open>id\<close>; everything else they carry is replaced wholesale, so it
  is kept as one opaque field.
\<close>

record Factory =
  factory_id :: string
  factory_content :: string

record SolverInstance =
  solver_id :: string
  solver_content :: string

text \<open>
  The game object. The optional fields of the TypeScript type (\<open>savedId?\<close>, \<open>authorId?\<close>,
  \<open>shareToken?\<close>, \<open>createdAt?\<close>, \<open>version?\<close>) are options; \<open>None\<close> is \<open>undefined\<close>.
\<close>

record Game =
  game_id :: string
  name :: string
  factoriesIds :: "string list"
  savedId :: "string option"
  authorId :: "string option"
  shareToken :: "string option"
  createdAt :: "string option"
  version :: "int option"

text \<open>\<open>SerializedGame\<close>: the snapshot exchanged with the remote store.\<close>

record SerializedGame =
  game :: Game
  factories :: "Factory list"
  solvers :: "SolverInstance list"

section \<open>mergeGameState.ts\<close>

text \<open>Source: \<open>src/src/collaboration/mergeGameState.ts\<close>, lines 1 to 90.\<close>

definition mergeGameState :: "SerializedGame \<Rightarrow> SerializedGame \<Rightarrow> SerializedGame" where
  "mergeGameState local remote =
     (let remoteFactoryIds = set (map factory_id (factories remote));
          localOnlyFactories = filter (\<lambda>f. factory_id f \<notin> remoteFactoryIds) (factories local);
          localOnlyFactoryIds = set (map factory_id localOnlyFactories);
          localOnlySolvers = filter (\<lambda>s. solver_id s \<in> localOnlyFactoryIds) (solvers local);
          mergedFactories = factories remote @ localOnlyFactories;
          remoteSolverIds = set (map solver_id (solvers remote));
          mergedSolvers =
            solvers remote @ filter (\<lambda>s. solver_id s \<notin> remoteSolverIds) localOnlySolvers;
          mergedFactoryIds = factoriesIds (game remote) @ map factory_id localOnlyFactories
      in \<lparr> game = (game remote)\<lparr> factoriesIds := mergedFactoryIds \<rparr>,
           factories = mergedFactories,
           solvers = mergedSolvers \<rparr>)"

definition hasLocalChanges :: "SerializedGame \<Rightarrow> SerializedGame \<Rightarrow> bool" where
  "hasLocalChanges local remote =
     (let remoteFactoryIds = set (map factory_id (factories remote));
          hasLocalOnlyFactories =
            list_ex (\<lambda>f. factory_id f \<notin> remoteFactoryIds) (factories local)
      in if hasLocalOnlyFactories then True
         else if length (factories local) \<noteq> length (factories remote) then True
         else False)"

definition getLocalOnlyFactoryIds :: "SerializedGame \<Rightarrow> SerializedGame \<Rightarrow> string list" where
  "getLocalOnlyFactoryIds local remote =
     (let remoteFactoryIds = set (map factory_id (factories remote))
      in map factory_id (filter (\<lambda>f. factory_id f \<notin> remoteFactoryIds) (factories local)))"

subsection \<open>Example snapshots\<close>

text \<open>
  Local factories A and B with their solvers; the remote snapshot has its own version of B
  and a new factory C, and no solvers.
\<close>

definition ex_A :: Factory where "ex_A = \<lparr> factory_id = ''a'', factory_content = ''A'' \<rparr>"
definition ex_B :: Factory where "ex_B = \<lparr> factory_id = ''b'', factory_content = ''B'' \<rparr>"
definition ex_B' :: Factory where "ex_B' = \<lparr> factory_id = ''b'', factory_content = ''B remote'' \<rparr>"
definition ex_C :: Factory where "ex_C = \<lparr> factory_id = ''c'', factory_content = ''C'' \<rparr>"
definition ex_solver_a :: SolverInstance where
  "ex_solver_a = \<lparr> solver_id = ''a'', solver_content = ''solver of A'' \<rparr>"
definition ex_solver_b :: SolverInstance where
  "ex_solver_b = \<lparr> solver_id = ''b'', solver_content = ''solver of B'' \<rparr>"

definition ex_solver_c :: SolverInstance where
  "ex_solver_c = \<lparr> solver_id = ''c'', solver_content = ''solver of C'' \<rparr>"

definition ex_game_local :: Game where
  "ex_game_local = \<lparr> game_id = ''g1'', name = ''Local name'', factoriesIds = [''a'', ''b''],
      savedId = Some ''row-1'', authorId = Some ''alice'', shareToken = Some ''tok'',
      createdAt = Some ''2025-01-01'', version = Some 5 \<rparr>"

definition ex_game_remote :: Game where
  "ex_game_remote = \<lparr> game_id = ''g1'', name = ''Remote name'', factoriesIds = [''b'', ''c''],
      savedId = None, authorId = None, shareToken = None, createdAt = None, version = None \<rparr>"

definition ex_local :: SerializedGame where
  "ex_local = \<lparr> game = ex_game_local, factories = [ex_A, ex_B],
                 solvers = [ex_solver_a, ex_solver_b] \<rparr>"

definition ex_remote :: SerializedGame where
  "ex_remote = \<lparr> game = ex_game_remote, factories = [ex_B', ex_C], solvers = [] \<rparr>"

section \<open>Properties of the merge\<close>

lemma factories_mergeGameState:
  "factories (mergeGameState local remote) =
     factories remote @
     filter (\<lambda>f. factory_id f \<notin> factory_id ` set (factories remote)) (factories local)"
  by (simp add: mergeGameState_def)

lemma solvers_mergeGameState:
  "solvers (mergeGameState local remote) =
     solvers remote @
     filter (\<lambda>s. solver_id s \<notin> solver_id ` set (solvers remote) \<and>
                 solver_id s \<in> factory_id `
                   {f \<in> set (factories local). factory_id f \<notin> factory_id ` set (factories remote)})
       (solvers local)"
  by (simp add: mergeGameState_def Let_def conj_commute)

lemma game_mergeGameState:
  "game (mergeGameState local remote) =
     (game remote)\<lparr> factoriesIds := factoriesIds (game remote) @ getLocalOnlyFactoryIds local remote \<rparr>"
  by (simp add: mergeGameState_def getLocalOnlyFactoryIds_def)

text \<open>
  C4 (merge union law). As a set, the merged factory collection is every factory of the
  remote snapshot together with the local factories whose id no remote factory has.
\<close>

theorem merge_factories_union:
  "set (factories (mergeGameState local remote)) =
     set (factories remote) \<union>
     {f \<in> set (factories local). factory_id f \<notin> factory_id ` set (factories remote)}"
  by (auto simp: factories_mergeGameState)

theorem merge_factories_union_witness:
  "set (factories (mergeGameState ex_local ex_remote)) = {ex_A, ex_B', ex_C}"
proof -
  have "{f \<in> set (factories ex_local). factory_id f \<notin> factory_id ` set (factories ex_remote)}
          = {ex_A}"
    by (auto simp: ex_local_def ex_remote_def ex_A_def ex_B_def ex_B'_def ex_C_def)
  moreover have "set (factories ex_remote) = {ex_B', ex_C}"
    by (simp add: ex_remote_def)
  ultimately show ?thesis
    using merge_factories_union [of ex_local ex_remote] by auto
qed

text \<open>
  C9 (merge idempotence). Merging a snapshot with itself returns that snapshot: game
  fields, child-id list, factories and solvers are all unchanged.
\<close>

theorem merge_idempotent: "mergeGameState x x = x"
  by (simp add: mergeGameState_def)

theorem merge_idempotent_witness:
  "mergeGameState ex_local ex_local = ex_local"
  by (rule merge_idempotent)

text \<open>
  C10. A solver that only the local snapshot has (no remote solver carries its id) is in
  the merged snapshot exactly when its id is the id of a local-only factory; when a remote
  factory has that id, the merged snapshot holds no solver with that id at all.
\<close>

theorem merge_local_only_solver:
  assumes "s \<in> set (solvers local)"
    and "solver_id s \<notin> solver_id ` set (solvers remote)"
  shows "(s \<in> set (solvers (mergeGameState local remote)) \<longleftrightarrow>
            solver_id s \<in> factory_id `
              {f \<in> set (factories local). factory_id f \<notin> factory_id ` set (factories remote)})
         \<and> (solver_id s \<in> factory_id ` set (factories remote) \<longrightarrow>
              solver_id s \<notin> solver_id ` set (solvers (mergeGameState local remote)))"
  using assms by (auto simp: solvers_mergeGameState)

theorem merge_local_only_solver_witness:
  "ex_solver_a \<in> set (solvers (mergeGameState ex_local ex_remote))
   \<and> ex_solver_b \<notin> set (solvers (mergeGameState ex_local ex_remote))
   \<and> solver_id ex_solver_b \<notin> solver_id ` set (solvers (mergeGameState ex_local ex_remote))"
proof -
  have a1: "ex_solver_a \<in> set (solvers ex_local)" and b1: "ex_solver_b \<in> set (solvers ex_local)"
    by (simp_all add: ex_local_def)
  have a2: "solver_id ex_solver_a \<notin> solver_id ` set (solvers ex_remote)"
    and b2: "solver_id ex_solver_b \<notin> solver_id ` set (solvers ex_remote)"
    by (simp_all add: ex_remote_def)
  have only: "{f \<in> set (factories ex_local).
                factory_id f \<notin> factory_id ` set (factories ex_remote)} = {ex_A}"
    by (auto simp: ex_local_def ex_remote_def ex_A_def ex_B_def ex_B'_def ex_C_def)
  have a3: "solver_id ex_solver_a \<in> factory_id ` {ex_A}"
    by (simp add: ex_solver_a_def ex_A_def)
  have b3: "solver_id ex_solver_b \<notin> factory_id ` {ex_A}"
    by (simp add: ex_solver_b_def ex_A_def)
  have b4: "solver_id ex_solver_b \<in> factory_id ` set (factories ex_remote)"
    by (simp add: ex_solver_b_def ex_remote_def ex_B'_def)
  from merge_local_only_solver [OF a1 a2] a3 only
  have "ex_solver_a \<in> set (solvers (mergeGameState ex_local ex_remote))" by simp
  moreover from merge_local_only_solver [OF b1 b2] b3 only
  have "ex_solver_b \<notin> set (solvers (mergeGameState ex_local ex_remote))" by simp
  moreover from merge_local_only_solver [OF b1 b2] b4
  have "solver_id ex_solver_b \<notin> solver_id ` set (solvers (mergeGameState ex_local ex_remote))"
    by simp
  ultimately show ?thesis by simp
qed

section \<open>Shared application state\<close>

text \<open>The part of a credential session the code reads: the user and the expiry (in seconds).\<close>

record Session =
  user_id :: string
  expires_at :: "int option"

text \<open>
  The zustand store, with the slices the synchronisation code touches; a field
  \<open>a_b\<close> is \<open>state.a.b\<close> of the source. The three dictionaries are partial maps.
\<close>

record Store =
  games_games :: "string \<rightharpoonup> Game"
  games_selected :: "string option"
  factories_factories :: "string \<rightharpoonup> Factory"
  solvers_instances :: "string \<rightharpoonup> SolverInstance"
  gameSave_isSaving :: bool
  auth_session :: "Session option"

section \<open>gameCollaborationActions.ts\<close>

text \<open>Source: \<open>src/src/games/store/gameCollaborationActions.ts\<close>, lines 1 to 101.\<close>

definition setGameVersion :: "string \<Rightarrow> int \<Rightarrow> Store \<Rightarrow> Store" where
  "setGameVersion gameId v state =
     (case games_games state gameId of
        None \<Rightarrow> state
      | Some g \<Rightarrow> state\<lparr> games_games := (games_games state)(gameId \<mapsto> g\<lparr> version := Some v \<rparr>) \<rparr>)"

definition setSyncingState :: "string \<Rightarrow> bool \<Rightarrow> Store \<Rightarrow> Store" where
  "setSyncingState gameId isSyncing state =
     (if isSyncing then state\<lparr> gameSave_isSaving := True \<rparr>
      else state\<lparr> gameSave_isSaving := False \<rparr>)"

text \<open>
  A line written with \<open>logger.error\<close>: the message, and the \<open>gameId\<close> and \<open>error\<close> of
  the object logged with it.
\<close>

record LogEntry =
  log_message :: string
  log_gameId :: "string option"
  log_error :: string

text \<open>
  \<open>setSyncError\<close> writes nothing to the store ("For now, we'll just log errors. Could add
  error state later."): it returns the state as it is, together with the line it logs
  when the error is truthy, that is neither null nor the empty string.
\<close>

definition setSyncError :: "string \<Rightarrow> string option \<Rightarrow> Store \<Rightarrow> Store \<times> LogEntry list" where
  "setSyncError gameId error state =
     (state,
      case error of
        None \<Rightarrow> []
      | Some e \<Rightarrow>
          if e = [] then []
          else [\<lparr> log_message = ''Sync error for game'', log_gameId = Some gameId,
                  log_error = e \<rparr>])"

text \<open>\<open>setSubscriptionState\<close> only logs as well.\<close>

definition setSubscriptionState :: "string \<Rightarrow> bool \<Rightarrow> Store \<Rightarrow> Store" where
  "setSubscriptionState gameId isSubscribed state = state"

text \<open>The first loop of \<open>applyRemoteGameUpdate\<close>: drop the children the merge no longer has.\<close>

fun clearOldFactories :: "string set \<Rightarrow> string list \<Rightarrow> Store \<Rightarrow> Store" where
  "clearOldFactories mergedFactoryIds [] state = state"
| "clearOldFactories mergedFactoryIds (factoryId # rest) state =
     clearOldFactories mergedFactoryIds rest
       (if factoryId \<notin> mergedFactoryIds
        then state\<lparr> factories_factories := (factories_factories state)(factoryId := None),
                    solvers_instances := (solvers_instances state)(factoryId := None) \<rparr>
        else state)"

text \<open>The second and third loops: store every merged factory and solver under its id.\<close>

fun applyFactories :: "Factory list \<Rightarrow> Store \<Rightarrow> Store" where
  "applyFactories [] state = state"
| "applyFactories (factory # rest) state =
     applyFactories rest
       (state\<lparr> factories_factories := (factories_factories state)(factory_id factory \<mapsto> factory) \<rparr>)"

fun applySolvers :: "SolverInstance list \<Rightarrow> Store \<Rightarrow> Store" where
  "applySolvers [] state = state"
| "applySolvers (solver # rest) state =
     applySolvers rest
       (state\<lparr> solvers_instances := (solvers_instances state)(solver_id solver \<mapsto> solver) \<rparr>)"

text \<open>
  The object \<open>{...localGame, ...merged.game, savedId: localGame.savedId, ...}\<close>: every
  field of \<open>merged.game\<close> overrides the local one, then the four preserved fields and the
  version are written.
\<close>

definition applyRemoteGameUpdate :: "string \<Rightarrow> SerializedGame \<Rightarrow> int \<Rightarrow> Store \<Rightarrow> Store" where
  "applyRemoteGameUpdate gameId merged v state =
     (case games_games state gameId of
        None \<Rightarrow> state
      | Some localGame \<Rightarrow>
          (let mergedFactoryIds = set (map factory_id (factories merged));
               state1 = clearOldFactories mergedFactoryIds (factoriesIds localGame) state;
               state2 = state1\<lparr> games_games := (games_games state1)(gameId \<mapsto>
                          (game merged)\<lparr> savedId := savedId localGame,
                                          authorId := authorId localGame,
                                          shareToken := shareToken localGame,
                                          createdAt := createdAt localGame,
                                          version := Some v \<rparr>) \<rparr>;
               state3 = applyFactories (factories merged) state2
           in applySolvers (solvers merged) state3))"

subsection \<open>Example store\<close>

text \<open>
  Bob is signed in. Game \<open>g1\<close> is Alice's, shared with him, at version 5, with the
  factories A and B; game \<open>g2\<close> is his own.
\<close>

definition ex_game2 :: Game where
  "ex_game2 = \<lparr> game_id = ''g2'', name = ''Second game'', factoriesIds = [],
      savedId = Some ''row-2'', authorId = Some ''bob'', shareToken = None,
      createdAt = Some ''2025-02-02'', version = None \<rparr>"

definition ex_session :: Session where
  "ex_session = \<lparr> user_id = ''bob'', expires_at = Some 4600 \<rparr>"

definition ex_store :: Store where
  "ex_store = \<lparr> games_games = [''g1'' \<mapsto> ex_game_local, ''g2'' \<mapsto> ex_game2],
      games_selected = Some ''g1'',
      factories_factories = [''a'' \<mapsto> ex_A, ''b'' \<mapsto> ex_B],
      solvers_instances = [''a'' \<mapsto> ex_solver_a, ''b'' \<mapsto> ex_solver_b],
      gameSave_isSaving = False,
      auth_session = Some ex_session \<rparr>"

text \<open>A merged snapshot that has dropped both local factories and holds only C.\<close>

definition ex_merged :: SerializedGame where
  "ex_merged = \<lparr> game = ex_game_remote\<lparr> factoriesIds := [''c''] \<rparr>,
                  factories = [ex_C], solvers = [] \<rparr>"

lemma ex_store_g1: "games_games ex_store ''g1'' = Some ex_game_local"
  by (simp add: ex_store_def)

lemma ex_store_g2: "games_games ex_store ''g2'' = Some ex_game2"
  by (simp add: ex_store_def)

section \<open>What applyRemoteGameUpdate leaves in the store\<close>

lemma clearOldFactories_frame [simp]:
  "games_games (clearOldFactories ids xs st) = games_games st"
  "games_selected (clearOldFactories ids xs st) = games_selected st"
  "gameSave_isSaving (clearOldFactories ids xs st) = gameSave_isSaving st"
  "auth_session (clearOldFactories ids xs st) = auth_session st"
  by (induction ids xs st rule: clearOldFactories.induct) simp_all

lemma clearOldFactories_factories:
  "factories_factories (clearOldFactories ids xs st) x =
     (if x \<in> set xs \<and> x \<notin> ids then None else factories_factories st x)"
  by (induction ids xs st rule: clearOldFactories.induct) auto

lemma clearOldFactories_solvers:
  "solvers_instances (clearOldFactories ids xs st) x =
     (if x \<in> set xs \<and> x \<notin> ids then None else solvers_instances st x)"
  by (induction ids xs st rule: clearOldFactories.induct) auto

lemma applyFactories_frame [simp]:
  "games_games (applyFactories fs st) = games_games st"
  "games_selected (applyFactories fs st) = games_selected st"
  "solvers_instances (applyFactories fs st) = solvers_instances st"
  "gameSave_isSaving (applyFactories fs st) = gameSave_isSaving st"
  "auth_session (applyFactories fs st) = auth_session st"
  by (induction fs st rule: applyFactories.induct) simp_all

lemma applyFactories_other:
  "x \<notin> factory_id ` set fs \<Longrightarrow>
     factories_factories (applyFactories fs st) x = factories_factories st x"
  by (induction fs st rule: applyFactories.induct) auto

lemma applySolvers_frame [simp]:
  "games_games (applySolvers ss st) = games_games st"
  "games_selected (applySolvers ss st) = games_selected st"
  "factories_factories (applySolvers ss st) = factories_factories st"
  "gameSave_isSaving (applySolvers ss st) = gameSave_isSaving st"
  "auth_session (applySolvers ss st) = auth_session st"
  by (induction ss st rule: applySolvers.induct) simp_all

lemma applySolvers_other:
  "x \<notin> solver_id ` set ss \<Longrightarrow>
     solvers_instances (applySolvers ss st) x = solvers_instances st x"
  by (induction ss st rule: applySolvers.induct) auto

lemma applyRemoteGameUpdate_game:
  assumes "games_games st gameId = Some localGame"
  shows "games_games (applyRemoteGameUpdate gameId merged v st) gameId =
           Some ((game merged)\<lparr> savedId := savedId localGame,
                                 authorId := authorId localGame,
                                 shareToken := shareToken localGame,
                                 createdAt := createdAt localGame,
                                 version := Some v \<rparr>)"
  using assms by (simp add: applyRemoteGameUpdate_def Let_def)

lemma applyRemoteGameUpdate_factory_deleted:
  assumes "games_games st gameId = Some localGame"
    and "x \<in> set (factoriesIds localGame)"
    and "x \<notin> factory_id ` set (factories merged)"
  shows "factories_factories (applyRemoteGameUpdate gameId merged v st) x = None"
  using assms
  by (simp add: applyRemoteGameUpdate_def Let_def applyFactories_other
      clearOldFactories_factories)

lemma applyRemoteGameUpdate_solver_deleted:
  assumes "games_games st gameId = Some localGame"
    and "x \<in> set (factoriesIds localGame)"
    and "x \<notin> factory_id ` set (factories merged)"
    and "x \<notin> solver_id ` set (solvers merged)"
  shows "solvers_instances (applyRemoteGameUpdate gameId merged v st) x = None"
  using assms
  by (simp add: applyRemoteGameUpdate_def Let_def applySolvers_other
      clearOldFactories_solvers)

subsection \<open>The store entry by entry\<close>

text \<open>
  \<open>find P (rev xs)\<close> is the last element of \<open>xs\<close> that satisfies \<open>P\<close>: of several
  entities with one id, a loop that stores each under its id leaves the last.
\<close>

lemma find_snoc:
  "List.find P (xs @ [x]) = (case List.find P xs of Some y \<Rightarrow> Some y | None \<Rightarrow> if P x then Some x else None)"
  by (induction xs) auto

lemma find_append_none:
  "\<forall>y \<in> set ys. \<not> P y \<Longrightarrow> List.find P (ys @ xs) = List.find P xs"
  by (induction ys) auto

lemma find_append_some:
  "List.find P ys = Some y \<Longrightarrow> List.find P (ys @ xs) = Some y"
  by (induction ys) (auto split: if_splits)

lemma find_filter_implied:
  "(\<And>y. P y \<Longrightarrow> Q y) \<Longrightarrow> List.find P (filter Q xs) = List.find P xs"
  by (induction xs) auto

lemma applyFactories_lookup:
  "factories_factories (applyFactories fs st) x =
     (case List.find (\<lambda>f. factory_id f = x) (rev fs) of
        Some f \<Rightarrow> Some f
      | None \<Rightarrow> factories_factories st x)"
  by (induction fs st rule: applyFactories.induct)
     (auto simp: find_snoc split: option.splits)

lemma applySolvers_lookup:
  "solvers_instances (applySolvers ss st) x =
     (case List.find (\<lambda>s. solver_id s = x) (rev ss) of
        Some s \<Rightarrow> Some s
      | None \<Rightarrow> solvers_instances st x)"
  by (induction ss st rule: applySolvers.induct)
     (auto simp: find_snoc split: option.splits)

lemma applyRemoteGameUpdate_games:
  assumes "games_games st gameId = Some localGame"
  shows "games_games (applyRemoteGameUpdate gameId merged v st) =
           (games_games st)(gameId \<mapsto>
             (game merged)\<lparr> savedId := savedId localGame, authorId := authorId localGame,
                             shareToken := shareToken localGame,
                             createdAt := createdAt localGame, version := Some v \<rparr>)"
  using assms by (simp add: applyRemoteGameUpdate_def Let_def)

lemma applyRemoteGameUpdate_factories:
  assumes "games_games st gameId = Some localGame"
  shows "factories_factories (applyRemoteGameUpdate gameId merged v st) x =
           (case List.find (\<lambda>f. factory_id f = x) (rev (factories merged)) of
              Some f \<Rightarrow> Some f
            | None \<Rightarrow> if x \<in> set (factoriesIds localGame) then None
                       else factories_factories st x)"
proof -
  have "List.find (\<lambda>f. factory_id f = x) (rev (factories merged)) = None
      \<Longrightarrow> x \<notin> factory_id ` set (factories merged)"
    by (auto simp: find_None_iff)
  then show ?thesis
    using assms
    by (auto simp: applyRemoteGameUpdate_def Let_def applyFactories_lookup
        clearOldFactories_factories split: option.splits)
qed

lemma applyRemoteGameUpdate_solvers:
  assumes "games_games st gameId = Some localGame"
  shows "solvers_instances (applyRemoteGameUpdate gameId merged v st) x =
           (case List.find (\<lambda>s. solver_id s = x) (rev (solvers merged)) of
              Some s \<Rightarrow> Some s
            | None \<Rightarrow> if x \<in> set (factoriesIds localGame)
                          \<and> x \<notin> factory_id ` set (factories merged) then None
                       else solvers_instances st x)"
  using assms
  by (auto simp: applyRemoteGameUpdate_def Let_def applySolvers_lookup
      clearOldFactories_solvers split: option.splits)

lemma find_exists:
  "\<exists>y \<in> set xs. P y \<Longrightarrow> \<exists>y. List.find P xs = Some y"
  by (induction xs) auto

lemma find_last_known:
  assumes "x \<in> f ` set xs"
  shows "(case List.find (\<lambda>y. f y = x) (rev xs) of Some y \<Rightarrow> Some y | None \<Rightarrow> d) =
           List.find (\<lambda>y. f y = x) (rev xs)"
proof -
  obtain y where "List.find (\<lambda>y. f y = x) (rev xs) = Some y"
    using find_exists [of "rev xs" "\<lambda>y. f y = x"] assms by auto
  then show ?thesis by simp
qed

text \<open>
  C5. When the game is in the store, the game record written by
  \<open>applyRemoteGameUpdate gameId merged v\<close> keeps the local \<open>savedId\<close>, \<open>authorId\<close>,
  \<open>shareToken\<close> and \<open>createdAt\<close>, takes its id, name and child-id list from the merged
  snapshot, and has version \<open>v\<close>. Every id of the local game's child list that no merged
  factory has is removed from the factory dictionary, and from the solver dictionary too
  when no merged solver has it.
\<close>

theorem applyRemoteGameUpdate_effect:
  assumes "games_games st gameId = Some localGame"
  shows "\<exists>g. games_games (applyRemoteGameUpdate gameId merged v st) gameId = Some g
           \<and> savedId g = savedId localGame
           \<and> authorId g = authorId localGame
           \<and> shareToken g = shareToken localGame
           \<and> createdAt g = createdAt localGame
           \<and> game_id g = game_id (game merged)
           \<and> name g = name (game merged)
           \<and> factoriesIds g = factoriesIds (game merged)
           \<and> version g = Some v
           \<and> (\<forall>x \<in> set (factoriesIds localGame).
                 x \<notin> factory_id ` set (factories merged) \<longrightarrow>
                   factories_factories (applyRemoteGameUpdate gameId merged v st) x = None
                   \<and> (x \<notin> solver_id ` set (solvers merged) \<longrightarrow>
                        solvers_instances (applyRemoteGameUpdate gameId merged v st) x = None))"
proof -
  let ?g = "(game merged)\<lparr> savedId := savedId localGame, authorId := authorId localGame,
              shareToken := shareToken localGame, createdAt := createdAt localGame,
              version := Some v \<rparr>"
  have "games_games (applyRemoteGameUpdate gameId merged v st) gameId = Some ?g"
    by (rule applyRemoteGameUpdate_game [OF assms])
  moreover have "\<forall>x \<in> set (factoriesIds localGame).
      x \<notin> factory_id ` set (factories merged) \<longrightarrow>
        factories_factories (applyRemoteGameUpdate gameId merged v st) x = None
        \<and> (x \<notin> solver_id ` set (solvers merged) \<longrightarrow>
             solvers_instances (applyRemoteGameUpdate gameId merged v st) x = None)"
    using applyRemoteGameUpdate_factory_deleted [OF assms]
      applyRemoteGameUpdate_solver_deleted [OF assms] by blast
  ultimately show ?thesis by simp
qed

theorem applyRemoteGameUpdate_effect_witness:
  "games_games ex_store ''g1'' = Some ex_game_local
   \<and> (\<exists>g. games_games (applyRemoteGameUpdate ''g1'' ex_merged 6 ex_store) ''g1'' = Some g
          \<and> savedId g = Some ''row-1'' \<and> authorId g = Some ''alice''
          \<and> name g = ''Remote name'' \<and> version g = Some 6)
   \<and> factories_factories (applyRemoteGameUpdate ''g1'' ex_merged 6 ex_store) ''a'' = None
   \<and> solvers_instances (applyRemoteGameUpdate ''g1'' ex_merged 6 ex_store) ''a'' = None"
proof -
  have a: "''a'' \<in> set (factoriesIds ex_game_local)"
    by (simp add: ex_game_local_def)
  have b: "''a'' \<notin> factory_id ` set (factories ex_merged)"
    by (simp add: ex_merged_def ex_C_def)
  have c: "''a'' \<notin> solver_id ` set (solvers ex_merged)"
    by (simp add: ex_merged_def)
  have d: "savedId ex_game_local = Some ''row-1''" "authorId ex_game_local = Some ''alice''"
    "name (game ex_merged) = ''Remote name''"
    by (simp_all add: ex_game_local_def ex_merged_def ex_game_remote_def)
  from applyRemoteGameUpdate_effect [OF ex_store_g1, of ex_merged 6] a b c d
  show ?thesis using ex_store_g1 by auto
qed

section \<open>syncManager.ts\<close>

text \<open>
  Source: the module that follows the merge in \<open>src/src/collaboration/mergeGameState.ts\<close>
  (lines 91 to 233); the subscription hook imports it as \<open>./syncManager\<close>.
\<close>

text \<open>
  The row update a push sends: \<open>.update({data, version, name}).eq('id', savedId)\<close>.
\<close>

record UpdateRequest =
  req_id :: string
  req_data :: SerializedGame
  req_version :: int
  req_name :: string

text \<open>
  What the awaited update gives back: the row's echoed version, an error object with its
  message, or an exception (caught by the \<open>catch\<close> branch, as \<open>String(error)\<close>).
\<close>

datatype UpdateResult = Updated int | Failed string | Thrown string

text \<open>
  The process state the synchronisation code works on: the store, the clock in
  milliseconds, the state of the one debounced function \<open>syncGameToRemote\<close> (the
  argument of its latest call and the time its trailing invocation is due, or nothing
  pending), the update requests issued so far, oldest first, and the lines written with
  \<open>logger.error\<close> so far, oldest first.
\<close>

record World =
  store :: Store
  now :: nat
  syncGameToRemote_timer :: "(string \<times> nat) option"
  requests :: "UpdateRequest list"
  errorLog :: "LogEntry list"

text \<open>\<open>serializeGame\<close> is imported from a module outside these sources: a parameter.\<close>

type_synonym serializer = "Store \<Rightarrow> string \<Rightarrow> SerializedGame"

definition SYNC_DEBOUNCE_MS :: nat where
  "SYNC_DEBOUNCE_MS = 1000"

text \<open>JavaScript truthiness of an optional string: neither undefined nor empty.\<close>

definition truthy :: "string option \<Rightarrow> bool" where
  "truthy s = (case s of None \<Rightarrow> False | Some t \<Rightarrow> t \<noteq> [])"

text \<open>\<open>game.version ?? 1\<close>\<close>

definition versionOr1 :: "Game \<Rightarrow> int" where
  "versionOr1 g = (case version g of None \<Rightarrow> 1 | Some v \<Rightarrow> v)"

text \<open>
  The body of the debounced function up to its \<open>await\<close>: the two guards, the syncing
  flag, and the request with \<open>currentVersion + 1\<close>.
\<close>

definition syncGameToRemote_body :: "serializer \<Rightarrow> string \<Rightarrow> World \<Rightarrow> World" where
  "syncGameToRemote_body ser gameId w =
     (case games_games (store w) gameId of
        None \<Rightarrow> w
      | Some g \<Rightarrow>
          (case savedId g of
             None \<Rightarrow> w
           | Some sid \<Rightarrow>
               if sid = [] then w
               else (case auth_session (store w) of
                       None \<Rightarrow> w
                     | Some session \<Rightarrow>
                         (let st1 = setSyncingState gameId True (store w);
                              serialized = ser st1 gameId;
                              currentVersion = versionOr1 g
                          in w\<lparr> store := st1,
                                requests := requests w @
                                  [\<lparr> req_id = sid, req_data = serialized,
                                     req_version = currentVersion + 1,
                                     req_name = name g \<rparr>] \<rparr>))))"

text \<open>\<open>logger.error(message, {error})\<close> of the sync module.\<close>

definition logError :: "string \<Rightarrow> string \<Rightarrow> World \<Rightarrow> World" where
  "logError message e w =
     w\<lparr> errorLog := errorLog w @
          [\<lparr> log_message = message, log_gameId = None, log_error = e \<rparr>] \<rparr>"

text \<open>\<open>useStore.getState().setSyncError(gameId, error)\<close>\<close>

definition callSetSyncError :: "string \<Rightarrow> string option \<Rightarrow> World \<Rightarrow> World" where
  "callSetSyncError gameId error w =
     (let (state, logged) = setSyncError gameId error (store w)
      in w\<lparr> store := state, errorLog := errorLog w @ logged \<rparr>)"

text \<open>
  The rest of the body, run when the awaited update settles: the error branch, the
  success path, the \<open>catch\<close> branch, and \<open>finally\<close> last.
\<close>

definition syncGameToRemote_settled :: "string \<Rightarrow> UpdateResult \<Rightarrow> World \<Rightarrow> World" where
  "syncGameToRemote_settled gameId r w =
     (let w1 = (case r of
                  Failed message \<Rightarrow>
                    callSetSyncError gameId (Some message) (logError ''Sync failed'' message w)
                | Updated v \<Rightarrow>
                    callSetSyncError gameId None
                      (w\<lparr> store := setGameVersion gameId v (store w) \<rparr>)
                | Thrown e \<Rightarrow>
                    callSetSyncError gameId (Some e) (logError ''Sync error'' e w))
      in w1\<lparr> store := setSyncingState gameId False (store w1) \<rparr>)"

text \<open>
  lodash's \<open>debounce(f, wait)\<close> with its default options keeps one timer and the latest
  arguments: a call stores its argument and restarts the wait, \<open>cancel\<close> drops the
  pending invocation, and when \<open>wait\<close> milliseconds have passed since the latest call
  \<open>f\<close> runs once with the latest argument.
\<close>

definition syncGameToRemote :: "string \<Rightarrow> World \<Rightarrow> World" where
  "syncGameToRemote gameId w =
     w\<lparr> syncGameToRemote_timer := Some (gameId, now w + SYNC_DEBOUNCE_MS) \<rparr>"

definition syncGameToRemote_cancel :: "World \<Rightarrow> World" where
  "syncGameToRemote_cancel w = w\<lparr> syncGameToRemote_timer := None \<rparr>"

text \<open>\<open>d\<close> milliseconds pass with no other event; a due invocation runs.\<close>

definition elapse :: "serializer \<Rightarrow> nat \<Rightarrow> World \<Rightarrow> World" where
  "elapse ser d w =
     (let w1 = w\<lparr> now := now w + d \<rparr>
      in case syncGameToRemote_timer w1 of
           None \<Rightarrow> w1
         | Some (gameId, due) \<Rightarrow>
             if due \<le> now w1
             then syncGameToRemote_body ser gameId (w1\<lparr> syncGameToRemote_timer := None \<rparr>)
             else w1)"

definition triggerSync :: "string option \<Rightarrow> World \<Rightarrow> World" where
  "triggerSync gameId w =
     (let targetGameId = (case gameId of Some g \<Rightarrow> Some g | None \<Rightarrow> games_selected (store w))
      in case targetGameId of
           None \<Rightarrow> w
         | Some t \<Rightarrow>
             if t = [] then w
             else (case games_games (store w) t of
                     None \<Rightarrow> w
                   | Some g \<Rightarrow> if truthy (savedId g) then syncGameToRemote t w else w))"

text \<open>
  \<open>syncGameImmediately\<close> up to its \<open>await\<close>. The second component is \<open>Some False\<close> when
  the function has already returned false, \<open>None\<close> while the update is awaited.
\<close>

definition syncGameImmediately_body ::
    "serializer \<Rightarrow> string \<Rightarrow> World \<Rightarrow> World \<times> bool option" where
  "syncGameImmediately_body ser gameId w0 =
     (let w = syncGameToRemote_cancel w0
      in case games_games (store w) gameId of
           None \<Rightarrow> (w, Some False)
         | Some g \<Rightarrow>
             (case savedId g of
                None \<Rightarrow> (w, Some False)
              | Some sid \<Rightarrow>
                  if sid = [] then (w, Some False)
                  else (case auth_session (store w) of
                          None \<Rightarrow> (w, Some False)
                        | Some session \<Rightarrow>
                            (let st1 = setSyncingState gameId True (store w);
                                 serialized = ser st1 gameId;
                                 currentVersion = versionOr1 g
                             in (w\<lparr> store := st1,
                                    requests := requests w @
                                      [\<lparr> req_id = sid, req_data = serialized,
                                         req_version = currentVersion + 1,
                                         req_name = name g \<rparr>] \<rparr>, None)))))"

definition syncGameImmediately_settled ::
    "string \<Rightarrow> UpdateResult \<Rightarrow> World \<Rightarrow> World \<times> bool" where
  "syncGameImmediately_settled gameId r w =
     (let (w1, result) =
            (case r of
               Failed message \<Rightarrow> (callSetSyncError gameId (Some message) w, False)
             | Updated v \<Rightarrow>
                 (callSetSyncError gameId None
                    (w\<lparr> store := setGameVersion gameId v (store w) \<rparr>), True)
             | Thrown e \<Rightarrow> (callSetSyncError gameId (Some e) w, False))
      in (w1\<lparr> store := setSyncingState gameId False (store w1) \<rparr>, result))"

definition cancelPendingSync :: "World \<Rightarrow> World" where
  "cancelPendingSync w = syncGameToRemote_cancel w"

section \<open>useGameSubscription.ts\<close>

text \<open>Source: \<open>src/unnamed/part_000\<close>, lines 1 to 192.\<close>

record RemoteGameRow =
  row_id :: string
  row_data :: SerializedGame
  row_version :: int
  row_author_id :: string
  row_updated_at :: string

definition handleRemoteUpdate :: "serializer \<Rightarrow> string \<Rightarrow> RemoteGameRow \<Rightarrow> World \<Rightarrow> World" where
  "handleRemoteUpdate ser gameId remote w =
     (case games_games (store w) gameId of
        None \<Rightarrow> w
      | Some localGame \<Rightarrow>
          (let localVersion = versionOr1 localGame;
               remoteVersion = row_version remote
           in if remoteVersion \<le> localVersion then w
              else (let w1 = cancelPendingSync w;
                        localSerialized = ser (store w1) gameId;
                        remoteSerialized = row_data remote;
                        merged = mergeGameState localSerialized remoteSerialized
                    in w1\<lparr> store := applyRemoteGameUpdate gameId merged remoteVersion (store w1) \<rparr>)))"

text \<open>\<open>removeGame\<close> is a store action defined outside these sources: a parameter.\<close>

definition handleRemoteDelete :: "(string \<Rightarrow> Store \<Rightarrow> Store) \<Rightarrow> string \<Rightarrow> Store \<Rightarrow> Store" where
  "handleRemoteDelete removeGame gameId state =
     (case games_games state gameId of
        None \<Rightarrow> state
      | Some g \<Rightarrow>
          (case auth_session state of
             None \<Rightarrow> state
           | Some session \<Rightarrow>
               if authorId g \<noteq> Some (user_id session) then removeGame gameId state
               else state))"

section \<open>Store code outside the sources\<close>

text \<open>
  Modelled from the spec: \<open>serializeGame\<close> (module \<open>gameFactoriesActions\<close>) is not among
  the sources. Section 3 describes a snapshot as the serialization of one aggregate plus
  all its current child entities, produced from shared local state: the game record with
  the factories and solver instances its child list names. It only instantiates the
  serializer parameter in the examples; for an id with no game, which no caller reaches,
  it gives an empty snapshot.
\<close>

definition serializeGame :: serializer where
  "serializeGame state gameId =
     (case games_games state gameId of
        None \<Rightarrow> \<lparr> game = \<lparr> game_id = gameId, name = [], factoriesIds = [], savedId = None,
                            authorId = None, shareToken = None, createdAt = None,
                            version = None \<rparr>,
                   factories = [], solvers = [] \<rparr>
      | Some g \<Rightarrow> \<lparr> game = g,
                     factories = List.map_filter (factories_factories state) (factoriesIds g),
                     solvers = List.map_filter (solvers_instances state) (factoriesIds g) \<rparr>)"

text \<open>
  Modelled from the spec: \<open>removeGame\<close> (a store action of the games slice) is not among
  the sources. Section 4.2: on a delete notification from the owner the aggregate and,
  implicitly, its children are removed from local state.
\<close>

definition removeGame :: "string \<Rightarrow> Store \<Rightarrow> Store" where
  "removeGame gameId state =
     (case games_games state gameId of
        None \<Rightarrow> state
      | Some g \<Rightarrow>
          state\<lparr> games_games := (games_games state)(gameId := None),
                 factories_factories :=
                   (\<lambda>x. if x \<in> set (factoriesIds g) then None else factories_factories state x),
                 solvers_instances :=
                   (\<lambda>x. if x \<in> set (factoriesIds g) then None else solvers_instances state x) \<rparr>)"

lemma removeGame_present:
  assumes "games_games st gameId = Some g"
  shows "games_games (removeGame gameId st) gameId = None"
    and "x \<in> set (factoriesIds g) \<Longrightarrow> factories_factories (removeGame gameId st) x = None"
    and "x \<in> set (factoriesIds g) \<Longrightarrow> solvers_instances (removeGame gameId st) x = None"
  using assms by (simp_all add: removeGame_def)

section \<open>Example worlds\<close>

definition ex_world :: World where
  "ex_world = \<lparr> store = ex_store, now = 0, syncGameToRemote_timer = None, requests = [],
                 errorLog = [] \<rparr>"

text \<open>A notification for \<open>g1\<close> carrying the remote snapshot at version \<open>v\<close>.\<close>

definition ex_row :: "int \<Rightarrow> RemoteGameRow" where
  "ex_row v = \<lparr> row_id = ''row-1'', row_data = ex_remote, row_version = v,
                row_author_id = ''alice'', row_updated_at = ''2025-03-03'' \<rparr>"

text \<open>A notification for \<open>g2\<close>, which has no local version yet, at version \<open>v\<close>.\<close>

definition ex_row2 :: "int \<Rightarrow> RemoteGameRow" where
  "ex_row2 v = \<lparr> row_id = ''row-2'',
                 row_data = \<lparr> game = ex_game2\<lparr> name := ''Renamed'', factoriesIds := [''c''] \<rparr>,
                              factories = [ex_C], solvers = [ex_solver_c] \<rparr>,
                 row_version = v, row_author_id = ''bob'', row_updated_at = ''2025-03-04'' \<rparr>"

text \<open>An edit of \<open>g1\<close> at time 0 has scheduled a push, due at 1000 ms.\<close>

definition ex_pending :: World where
  "ex_pending = triggerSync (Some ''g1'') ex_world"

text \<open>The quiet period has passed: the push of \<open>g1\<close> is awaiting the remote's answer.\<close>

definition ex_inflight :: World where
  "ex_inflight = elapse serializeGame 1000 ex_pending"

text \<open>An edit of \<open>g1\<close> at time 0 and an edit of \<open>g2\<close> at 500 ms.\<close>

definition ex_two_calls :: World where
  "ex_two_calls = triggerSync (Some ''g2'') (elapse serializeGame 500 (triggerSync (Some ''g1'') ex_world))"

definition ex_store_alice :: Store where
  "ex_store_alice = ex_store\<lparr> auth_session := Some \<lparr> user_id = ''alice'', expires_at = None \<rparr> \<rparr>"

definition ex_store_signed_out :: Store where
  "ex_store_signed_out = ex_store\<lparr> auth_session := None \<rparr>"

lemma ex_g1_version: "versionOr1 ex_game_local = 5"
  by (simp add: versionOr1_def ex_game_local_def)

lemma ex_pending_eq:
  "ex_pending = ex_world\<lparr> syncGameToRemote_timer := Some (''g1'', 1000) \<rparr>"
  by (simp add: ex_pending_def triggerSync_def ex_world_def ex_store_g1 truthy_def
      ex_game_local_def syncGameToRemote_def SYNC_DEBOUNCE_MS_def)

section \<open>The request of a push\<close>

text \<open>The request a push of \<open>gameId\<close> sends from a store, when both guards pass.\<close>

definition pushRequest :: "serializer \<Rightarrow> string \<Rightarrow> Store \<Rightarrow> UpdateRequest option" where
  "pushRequest ser gameId st =
     (case games_games st gameId of
        None \<Rightarrow> None
      | Some g \<Rightarrow>
          (case savedId g of
             None \<Rightarrow> None
           | Some sid \<Rightarrow>
               if sid = [] \<or> auth_session st = None then None
               else Some \<lparr> req_id = sid,
                           req_data = ser (st\<lparr> gameSave_isSaving := True \<rparr>) gameId,
                           req_version = versionOr1 g + 1,
                           req_name = name g \<rparr>))"

lemma syncGameToRemote_body_eq:
  "syncGameToRemote_body ser gameId w =
     (case pushRequest ser gameId (store w) of
        None \<Rightarrow> w
      | Some r \<Rightarrow> w\<lparr> store := (store w)\<lparr> gameSave_isSaving := True \<rparr>,
                      requests := requests w @ [r] \<rparr>)"
  by (auto simp: syncGameToRemote_body_def pushRequest_def setSyncingState_def Let_def
      split: option.splits)

lemma syncGameImmediately_body_eq:
  "syncGameImmediately_body ser gameId w =
     (case pushRequest ser gameId (store w) of
        None \<Rightarrow> (w\<lparr> syncGameToRemote_timer := None \<rparr>, Some False)
      | Some r \<Rightarrow> (w\<lparr> syncGameToRemote_timer := None,
                       store := (store w)\<lparr> gameSave_isSaving := True \<rparr>,
                       requests := requests w @ [r] \<rparr>, None))"
  by (auto simp: syncGameImmediately_body_def pushRequest_def setSyncingState_def Let_def
      syncGameToRemote_cancel_def split: option.splits)

lemma pushRequest_isSaving [simp]:
  "pushRequest ser gameId (st\<lparr> gameSave_isSaving := b \<rparr>) = pushRequest ser gameId st"
  by (simp add: pushRequest_def split: option.splits)

lemma ex_push_g1:
  "pushRequest serializeGame ''g1'' ex_store =
     Some \<lparr> req_id = ''row-1'',
            req_data = serializeGame (ex_store\<lparr> gameSave_isSaving := True \<rparr>) ''g1'',
            req_version = 6, req_name = ''Local name'' \<rparr>"
  by (simp add: pushRequest_def ex_store_g1 ex_g1_version)
     (simp add: ex_game_local_def ex_store_def versionOr1_def)

lemma ex_inflight_eq:
  "ex_inflight = \<lparr> store = ex_store\<lparr> gameSave_isSaving := True \<rparr>, now = 1000,
      syncGameToRemote_timer = None,
      requests = [\<lparr> req_id = ''row-1'',
                    req_data = serializeGame (ex_store\<lparr> gameSave_isSaving := True \<rparr>) ''g1'',
                    req_version = 6, req_name = ''Local name'' \<rparr>],
      errorLog = [] \<rparr>"
  by (simp add: ex_inflight_def ex_pending_eq elapse_def ex_world_def
      syncGameToRemote_body_eq ex_push_g1)

section \<open>Inbound path: row updated\<close>

lemma handleRemoteUpdate_stale:
  assumes "games_games (store w) gameId = Some localGame"
    and "row_version remote \<le> versionOr1 localGame"
  shows "handleRemoteUpdate ser gameId remote w = w"
  using assms by (simp add: handleRemoteUpdate_def)

lemma handleRemoteUpdate_newer:
  assumes "games_games (store w) gameId = Some localGame"
    and "versionOr1 localGame < row_version remote"
  shows "handleRemoteUpdate ser gameId remote w =
           w\<lparr> syncGameToRemote_timer := None,
              store := applyRemoteGameUpdate gameId
                         (mergeGameState (ser (store w) gameId) (row_data remote))
                         (row_version remote) (store w) \<rparr>"
  using assms
  by (simp add: handleRemoteUpdate_def cancelPendingSync_def syncGameToRemote_cancel_def Let_def)

lemma elapse_idle:
  "syncGameToRemote_timer w = None \<Longrightarrow> elapse ser d w = w\<lparr> now := now w + d \<rparr>"
  by (simp add: elapse_def)

lemma handleRemoteUpdate_then_older:
  assumes "games_games (store w) gameId = Some localGame"
    and "versionOr1 localGame < row_version newer"
    and "row_version older \<le> row_version newer"
  shows "handleRemoteUpdate ser gameId older (handleRemoteUpdate ser gameId newer w) =
           handleRemoteUpdate ser gameId newer w"
proof -
  let ?merged = "mergeGameState (ser (store w) gameId) (row_data newer)"
  let ?g = "(game ?merged)\<lparr> savedId := savedId localGame, authorId := authorId localGame,
              shareToken := shareToken localGame, createdAt := createdAt localGame,
              version := Some (row_version newer) \<rparr>"
  have "games_games (store (handleRemoteUpdate ser gameId newer w)) gameId = Some ?g"
    using applyRemoteGameUpdate_game [OF assms(1), of ?merged "row_version newer"]
    by (simp add: handleRemoteUpdate_newer [OF assms(1,2)])
  moreover have "row_version older \<le> versionOr1 ?g"
    using assms(3) by (simp add: versionOr1_def)
  ultimately show ?thesis
    by (rule handleRemoteUpdate_stale)
qed

lemma merged_factories_find_remote:
  assumes "x \<in> factory_id ` set (factories remote)"
  shows "List.find (\<lambda>f. factory_id f = x) (rev (factories (mergeGameState local remote))) =
           List.find (\<lambda>f. factory_id f = x) (rev (factories remote))"
  unfolding factories_mergeGameState rev_append
  by (rule find_append_none) (use assms in auto)

lemma merged_factories_find_local_only:
  assumes "x \<in> set (getLocalOnlyFactoryIds local remote)"
  shows "List.find (\<lambda>f. factory_id f = x) (rev (factories (mergeGameState local remote))) =
           List.find (\<lambda>f. factory_id f = x) (rev (factories local))"
proof -
  have notin: "x \<notin> factory_id ` set (factories remote)"
    and isin: "x \<in> factory_id ` set (factories local)"
    using assms by (auto simp: getLocalOnlyFactoryIds_def)
  let ?P = "\<lambda>f. factory_id f = x"
  let ?Q = "\<lambda>f. factory_id f \<notin> factory_id ` set (factories remote)"
  have eq: "List.find ?P (filter ?Q (rev (factories local))) = List.find ?P (rev (factories local))"
    using notin by (intro find_filter_implied) simp
  obtain y where y: "List.find ?P (rev (factories local)) = Some y"
    using find_exists [of "rev (factories local)" ?P] isin by auto
  show ?thesis
    using eq y by (simp add: factories_mergeGameState rev_filter find_append_some)
qed

lemma merged_solvers_find_remote:
  assumes "x \<in> solver_id ` set (solvers remote)"
  shows "List.find (\<lambda>s. solver_id s = x) (rev (solvers (mergeGameState local remote))) =
           List.find (\<lambda>s. solver_id s = x) (rev (solvers remote))"
  unfolding solvers_mergeGameState rev_append
  by (rule find_append_none) (use assms in auto)

lemma serializeGame_ex_g1: "serializeGame ex_store ''g1'' = ex_local"
  by (simp add: serializeGame_def ex_store_def ex_local_def ex_game_local_def
      map_filter_simps)

lemma serializeGame_ex_g2:
  "serializeGame ex_store ''g2'' = \<lparr> game = ex_game2, factories = [], solvers = [] \<rparr>"
  by (simp add: serializeGame_def ex_store_def ex_game2_def map_filter_simps)

text \<open>
  C3 (version gate). For a notification about a game that is in the store, with the local
  version read as 1 when the game has none: a carried version not above the local one
  leaves the whole process state as it was (store, pending push and issued requests). A
  carried version above it makes the store the result of applying, once, the merge of
  the local snapshot with the carried one, at the carried version: the game record has
  the carried game's fields, the carried child list followed by the local-only ids, the
  four local fields and the carried version; under each carried factory id the store
  holds the (last) carried factory with that id, under each local-only factory id the
  (last) local factory, and under each carried solver id the (last) carried solver.
  Hence, once a newer notification has been handled, a duplicate of it or any
  notification with a version not above it changes nothing.
\<close>

theorem remote_update_version_gate:
  assumes "games_games (store w) gameId = Some localGame"
  shows "(row_version remote \<le> versionOr1 localGame \<longrightarrow>
            handleRemoteUpdate ser gameId remote w = w)
         \<and> (versionOr1 localGame < row_version remote \<longrightarrow>
              store (handleRemoteUpdate ser gameId remote w) =
                applyRemoteGameUpdate gameId
                  (mergeGameState (ser (store w) gameId) (row_data remote))
                  (row_version remote) (store w)
              \<and> (\<forall>older. row_version older \<le> row_version remote \<longrightarrow>
                    handleRemoteUpdate ser gameId older (handleRemoteUpdate ser gameId remote w) =
                      handleRemoteUpdate ser gameId remote w)
              \<and> games_games (store (handleRemoteUpdate ser gameId remote w)) gameId =
                  Some ((game (row_data remote))
                    \<lparr> factoriesIds := factoriesIds (game (row_data remote)) @
                         getLocalOnlyFactoryIds (ser (store w) gameId) (row_data remote),
                      savedId := savedId localGame, authorId := authorId localGame,
                      shareToken := shareToken localGame, createdAt := createdAt localGame,
                      version := Some (row_version remote) \<rparr>)
              \<and> (\<forall>x \<in> factory_id ` set (factories (row_data remote)).
                    factories_factories (store (handleRemoteUpdate ser gameId remote w)) x =
                      List.find (\<lambda>f. factory_id f = x) (rev (factories (row_data remote))))
              \<and> (\<forall>x \<in> set (getLocalOnlyFactoryIds (ser (store w) gameId) (row_data remote)).
                    factories_factories (store (handleRemoteUpdate ser gameId remote w)) x =
                      List.find (\<lambda>f. factory_id f = x) (rev (factories (ser (store w) gameId))))
              \<and> (\<forall>x \<in> solver_id ` set (solvers (row_data remote)).
                    solvers_instances (store (handleRemoteUpdate ser gameId remote w)) x =
                      List.find (\<lambda>s. solver_id s = x) (rev (solvers (row_data remote)))))"
proof (intro conjI impI)
  assume "row_version remote \<le> versionOr1 localGame"
  then show "handleRemoteUpdate ser gameId remote w = w"
    by (rule handleRemoteUpdate_stale [OF assms])
next
  let ?L = "ser (store w) gameId" and ?R = "row_data remote"
  let ?st' = "store (handleRemoteUpdate ser gameId remote w)"
  assume newer: "versionOr1 localGame < row_version remote"
  show st': "?st' = applyRemoteGameUpdate gameId (mergeGameState ?L ?R) (row_version remote) (store w)"
    by (simp add: handleRemoteUpdate_newer [OF assms newer])
  show "\<forall>older. row_version older \<le> row_version remote \<longrightarrow>
      handleRemoteUpdate ser gameId older (handleRemoteUpdate ser gameId remote w) =
        handleRemoteUpdate ser gameId remote w"
    using handleRemoteUpdate_then_older [OF assms newer] by blast
  show "games_games ?st' gameId =
      Some ((game ?R)\<lparr> factoriesIds := factoriesIds (game ?R) @ getLocalOnlyFactoryIds ?L ?R,
        savedId := savedId localGame, authorId := authorId localGame,
        shareToken := shareToken localGame, createdAt := createdAt localGame,
        version := Some (row_version remote) \<rparr>)"
    unfolding st' by (simp add: applyRemoteGameUpdate_games [OF assms] game_mergeGameState)
  show "\<forall>x \<in> factory_id ` set (factories ?R).
      factories_factories ?st' x = List.find (\<lambda>f. factory_id f = x) (rev (factories ?R))"
  proof
    fix x assume x: "x \<in> factory_id ` set (factories ?R)"
    then have "x \<in> factory_id ` set (factories (mergeGameState ?L ?R))"
      by (auto simp: factories_mergeGameState)
    then have "factories_factories ?st' x =
        List.find (\<lambda>f. factory_id f = x) (rev (factories (mergeGameState ?L ?R)))"
      unfolding st' applyRemoteGameUpdate_factories [OF assms] by (rule find_last_known)
    then show "factories_factories ?st' x = List.find (\<lambda>f. factory_id f = x) (rev (factories ?R))"
      by (simp only: merged_factories_find_remote [OF x])
  qed
  show "\<forall>x \<in> set (getLocalOnlyFactoryIds ?L ?R).
      factories_factories ?st' x = List.find (\<lambda>f. factory_id f = x) (rev (factories ?L))"
  proof
    fix x assume x: "x \<in> set (getLocalOnlyFactoryIds ?L ?R)"
    then have "x \<in> factory_id ` set (factories (mergeGameState ?L ?R))"
      by (auto simp: factories_mergeGameState getLocalOnlyFactoryIds_def)
    then have "factories_factories ?st' x =
        List.find (\<lambda>f. factory_id f = x) (rev (factories (mergeGameState ?L ?R)))"
      unfolding st' applyRemoteGameUpdate_factories [OF assms] by (rule find_last_known)
    then show "factories_factories ?st' x = List.find (\<lambda>f. factory_id f = x) (rev (factories ?L))"
      by (simp only: merged_factories_find_local_only [OF x])
  qed
  show "\<forall>x \<in> solver_id ` set (solvers ?R).
      solvers_instances ?st' x = List.find (\<lambda>s. solver_id s = x) (rev (solvers ?R))"
  proof
    fix x assume x: "x \<in> solver_id ` set (solvers ?R)"
    then have "x \<in> solver_id ` set (solvers (mergeGameState ?L ?R))"
      by (auto simp: solvers_mergeGameState)
    then have "solvers_instances ?st' x =
        List.find (\<lambda>s. solver_id s = x) (rev (solvers (mergeGameState ?L ?R)))"
      unfolding st' applyRemoteGameUpdate_solvers [OF assms] by (rule find_last_known)
    then show "solvers_instances ?st' x = List.find (\<lambda>s. solver_id s = x) (rev (solvers ?R))"
      by (simp only: merged_solvers_find_remote [OF x])
  qed
qed

theorem remote_update_version_gate_witness:
  "games_games (store ex_world) ''g1'' = Some ex_game_local
   \<and> handleRemoteUpdate serializeGame ''g1'' (ex_row 5) ex_world = ex_world
   \<and> handleRemoteUpdate serializeGame ''g1'' (ex_row 3) ex_world = ex_world
   \<and> games_games (store (handleRemoteUpdate serializeGame ''g1'' (ex_row 6) ex_world)) ''g1'' =
       Some \<lparr> game_id = ''g1'', name = ''Remote name'', factoriesIds = [''b'', ''c'', ''a''],
              savedId = Some ''row-1'', authorId = Some ''alice'', shareToken = Some ''tok'',
              createdAt = Some ''2025-01-01'', version = Some 6 \<rparr>
   \<and> factories_factories (store (handleRemoteUpdate serializeGame ''g1'' (ex_row 6) ex_world)) ''b'' =
       Some ex_B'
   \<and> factories_factories (store (handleRemoteUpdate serializeGame ''g1'' (ex_row 6) ex_world)) ''c'' =
       Some ex_C
   \<and> factories_factories (store (handleRemoteUpdate serializeGame ''g1'' (ex_row 6) ex_world)) ''a'' =
       Some ex_A
   \<and> version ex_game2 = None
   \<and> handleRemoteUpdate serializeGame ''g2'' (ex_row2 1) ex_world = ex_world
   \<and> map_option version
         (games_games (store (handleRemoteUpdate serializeGame ''g2'' (ex_row2 2) ex_world)) ''g2'') =
       Some (Some 2)
   \<and> solvers_instances (store (handleRemoteUpdate serializeGame ''g2'' (ex_row2 2) ex_world)) ''c'' =
       Some ex_solver_c
   \<and> handleRemoteUpdate serializeGame ''g1'' (ex_row 6)
         (handleRemoteUpdate serializeGame ''g1'' (ex_row 6) ex_world) =
       handleRemoteUpdate serializeGame ''g1'' (ex_row 6) ex_world
   \<and> handleRemoteUpdate serializeGame ''g1'' (ex_row 4)
         (handleRemoteUpdate serializeGame ''g1'' (ex_row 6) ex_world) =
       handleRemoteUpdate serializeGame ''g1'' (ex_row 6) ex_world"
proof -
  let ?W = "handleRemoteUpdate serializeGame ''g1'' (ex_row 6) ex_world"
  let ?W2 = "handleRemoteUpdate serializeGame ''g2'' (ex_row2 2) ex_world"
  have g: "games_games (store ex_world) ''g1'' = Some ex_game_local"
    and g2: "games_games (store ex_world) ''g2'' = Some ex_game2"
    by (simp_all add: ex_world_def ex_store_g1 ex_store_g2)
  have v: "row_version (ex_row 5) \<le> versionOr1 ex_game_local"
    "row_version (ex_row 3) \<le> versionOr1 ex_game_local"
    "versionOr1 ex_game_local < row_version (ex_row 6)"
    by (simp_all add: ex_row_def ex_g1_version)
  have v2: "version ex_game2 = None"
    "row_version (ex_row2 1) \<le> versionOr1 ex_game2"
    "versionOr1 ex_game2 < row_version (ex_row2 2)"
    by (simp_all add: ex_row2_def versionOr1_def ex_game2_def)
  have o: "row_version (ex_row 6) \<le> row_version (ex_row 6)"
    "row_version (ex_row 4) \<le> row_version (ex_row 6)"
    by (simp_all add: ex_row_def)
  have L: "serializeGame (store ex_world) ''g1'' = ex_local"
    by (simp add: ex_world_def serializeGame_ex_g1)
  have R: "row_data (ex_row 6) = ex_remote" "row_version (ex_row 6) = 6"
    by (simp_all add: ex_row_def)
  have only: "getLocalOnlyFactoryIds ex_local ex_remote = [''a'']"
    by (simp add: getLocalOnlyFactoryIds_def ex_local_def ex_remote_def ex_A_def ex_B_def
        ex_B'_def ex_C_def)
  have ids: "''b'' \<in> factory_id ` set (factories ex_remote)"
    "''c'' \<in> factory_id ` set (factories ex_remote)"
    "''a'' \<in> set (getLocalOnlyFactoryIds ex_local ex_remote)"
    by (simp_all add: only) (simp_all add: ex_remote_def ex_B'_def ex_C_def)
  have last: "List.find (\<lambda>f. factory_id f = ''b'') (rev (factories ex_remote)) = Some ex_B'"
    "List.find (\<lambda>f. factory_id f = ''c'') (rev (factories ex_remote)) = Some ex_C"
    "List.find (\<lambda>f. factory_id f = ''a'') (rev (factories ex_local)) = Some ex_A"
    by (simp_all add: ex_remote_def ex_local_def ex_A_def ex_B_def ex_B'_def ex_C_def)
  have rec_eq: "(game ex_remote)\<lparr> factoriesIds := factoriesIds (game ex_remote) @ [''a''],
        savedId := savedId ex_game_local, authorId := authorId ex_game_local,
        shareToken := shareToken ex_game_local, createdAt := createdAt ex_game_local,
        version := Some 6 \<rparr> =
      \<lparr> game_id = ''g1'', name = ''Remote name'', factoriesIds = [''b'', ''c'', ''a''],
        savedId = Some ''row-1'', authorId = Some ''alice'', shareToken = Some ''tok'',
        createdAt = Some ''2025-01-01'', version = Some 6 \<rparr>"
    by (simp add: ex_remote_def ex_game_remote_def ex_game_local_def)
  note T = remote_update_version_gate [OF g, of _ serializeGame]
  have stale: "handleRemoteUpdate serializeGame ''g1'' (ex_row 5) ex_world = ex_world"
    "handleRemoteUpdate serializeGame ''g1'' (ex_row 3) ex_world = ex_world"
    using T [of "ex_row 5"] T [of "ex_row 3"] v by blast+
  have dup: "handleRemoteUpdate serializeGame ''g1'' (ex_row 6) ?W = ?W"
    "handleRemoteUpdate serializeGame ''g1'' (ex_row 4) ?W = ?W"
    using T [of "ex_row 6"] v(3) o by blast+
  have "games_games (store ?W) ''g1'' =
      Some ((game (row_data (ex_row 6)))
        \<lparr> factoriesIds := factoriesIds (game (row_data (ex_row 6))) @
             getLocalOnlyFactoryIds (serializeGame (store ex_world) ''g1'') (row_data (ex_row 6)),
          savedId := savedId ex_game_local, authorId := authorId ex_game_local,
          shareToken := shareToken ex_game_local, createdAt := createdAt ex_game_local,
          version := Some (row_version (ex_row 6)) \<rparr>)"
    using T [of "ex_row 6"] v(3) by blast
  then have game: "games_games (store ?W) ''g1'' =
      Some \<lparr> game_id = ''g1'', name = ''Remote name'', factoriesIds = [''b'', ''c'', ''a''],
        savedId = Some ''row-1'', authorId = Some ''alice'', shareToken = Some ''tok'',
        createdAt = Some ''2025-01-01'', version = Some 6 \<rparr>"
    by (simp only: L R only rec_eq)
  have "\<forall>x \<in> factory_id ` set (factories (row_data (ex_row 6))).
      factories_factories (store ?W) x =
        List.find (\<lambda>f. factory_id f = x) (rev (factories (row_data (ex_row 6))))"
    using T [of "ex_row 6"] v(3) by blast
  then have remote: "factories_factories (store ?W) ''b'' = Some ex_B'"
    "factories_factories (store ?W) ''c'' = Some ex_C"
    using ids(1,2) last(1,2) unfolding R by auto
  have "\<forall>x \<in> set (getLocalOnlyFactoryIds (serializeGame (store ex_world) ''g1'')
        (row_data (ex_row 6))).
      factories_factories (store ?W) x =
        List.find (\<lambda>f. factory_id f = x) (rev (factories (serializeGame (store ex_world) ''g1'')))"
    using T [of "ex_row 6"] v(3) by blast
  then have local_only: "factories_factories (store ?W) ''a'' = Some ex_A"
    using ids(3) last(3) unfolding L R by auto
  note T2 = remote_update_version_gate [OF g2, of _ serializeGame]
  have stale2: "handleRemoteUpdate serializeGame ''g2'' (ex_row2 1) ex_world = ex_world"
    using T2 [of "ex_row2 1"] v2(2) by blast
  have "games_games (store ?W2) ''g2'' =
      Some ((game (row_data (ex_row2 2)))
        \<lparr> factoriesIds := factoriesIds (game (row_data (ex_row2 2))) @
             getLocalOnlyFactoryIds (serializeGame (store ex_world) ''g2'') (row_data (ex_row2 2)),
          savedId := savedId ex_game2, authorId := authorId ex_game2,
          shareToken := shareToken ex_game2, createdAt := createdAt ex_game2,
          version := Some (row_version (ex_row2 2)) \<rparr>)"
    using T2 [of "ex_row2 2"] v2(3) by blast
  then have version2: "map_option version (games_games (store ?W2) ''g2'') = Some (Some 2)"
    by (simp add: ex_row2_def)
  have "\<forall>x \<in> solver_id ` set (solvers (row_data (ex_row2 2))).
      solvers_instances (store ?W2) x =
        List.find (\<lambda>s. solver_id s = x) (rev (solvers (row_data (ex_row2 2))))"
    using T2 [of "ex_row2 2"] v2(3) by blast
  moreover have "''c'' \<in> solver_id ` set (solvers (row_data (ex_row2 2)))"
    "List.find (\<lambda>s. solver_id s = ''c'') (rev (solvers (row_data (ex_row2 2)))) = Some ex_solver_c"
    by (simp_all add: ex_row2_def ex_solver_c_def)
  ultimately have solver2: "solvers_instances (store ?W2) ''c'' = Some ex_solver_c"
    by auto
  show ?thesis
    using g stale game remote local_only v2(1) stale2 version2 solver2 dup by simp
qed

text \<open>
  C2 (cancellation ordering), as amended. A push is pending (scheduled, its due time not
  reached) and a notification with a version above the local one is handled. Afterwards
  no push is pending and nothing has been sent. The store holds the merge result as
  \<open>applyRemoteGameUpdate\<close> applies it: the game record is the merged game with the local
  \<open>savedId\<close>, \<open>authorId\<close>, \<open>shareToken\<close> and \<open>createdAt\<close> kept and the carried version;
  under each merged factory id it holds the (last) merged factory with that id, under
  each merged solver id the (last) merged solver; a child of the local list that no
  merged factory has is gone. However much time then passes the store stays that and
  still nothing is sent: the push that was pending never runs.
\<close>

theorem remote_update_cancels_pending_push:
  assumes "games_games (store w) gameId = Some localGame"
    and "versionOr1 localGame < row_version remote"
    and "syncGameToRemote_timer w = Some (g, due)"
    and "now w < due"
  shows "syncGameToRemote_timer (handleRemoteUpdate ser gameId remote w) = None
         \<and> store (handleRemoteUpdate ser gameId remote w) =
             applyRemoteGameUpdate gameId
               (mergeGameState (ser (store w) gameId) (row_data remote))
               (row_version remote) (store w)
         \<and> requests (handleRemoteUpdate ser gameId remote w) = requests w
         \<and> (\<forall>d. store (elapse ser d (handleRemoteUpdate ser gameId remote w)) =
                   store (handleRemoteUpdate ser gameId remote w)
                 \<and> requests (elapse ser d (handleRemoteUpdate ser gameId remote w)) = requests w)
         \<and> games_games (store (handleRemoteUpdate ser gameId remote w)) gameId =
             Some ((game (mergeGameState (ser (store w) gameId) (row_data remote)))
               \<lparr> savedId := savedId localGame, authorId := authorId localGame,
                 shareToken := shareToken localGame, createdAt := createdAt localGame,
                 version := Some (row_version remote) \<rparr>)
         \<and> (\<forall>x \<in> factory_id `
                 set (factories (mergeGameState (ser (store w) gameId) (row_data remote))).
               factories_factories (store (handleRemoteUpdate ser gameId remote w)) x =
                 List.find (\<lambda>f. factory_id f = x)
                   (rev (factories (mergeGameState (ser (store w) gameId) (row_data remote)))))
         \<and> (\<forall>x \<in> solver_id `
                 set (solvers (mergeGameState (ser (store w) gameId) (row_data remote))).
               solvers_instances (store (handleRemoteUpdate ser gameId remote w)) x =
                 List.find (\<lambda>s. solver_id s = x)
                   (rev (solvers (mergeGameState (ser (store w) gameId) (row_data remote)))))
         \<and> (\<forall>x \<in> set (factoriesIds localGame).
               x \<notin> factory_id `
                 set (factories (mergeGameState (ser (store w) gameId) (row_data remote))) \<longrightarrow>
               factories_factories (store (handleRemoteUpdate ser gameId remote w)) x = None)"
proof -
  let ?M = "mergeGameState (ser (store w) gameId) (row_data remote)"
  let ?w' = "handleRemoteUpdate ser gameId remote w"
  have w': "?w' = w\<lparr> syncGameToRemote_timer := None,
      store := applyRemoteGameUpdate gameId ?M (row_version remote) (store w) \<rparr>"
    by (rule handleRemoteUpdate_newer [OF assms(1,2)])
  have st': "store ?w' = applyRemoteGameUpdate gameId ?M (row_version remote) (store w)"
    and cancelled: "syncGameToRemote_timer ?w' = None"
    and unsent: "requests ?w' = requests w"
    by (simp_all add: w')
  have later: "\<forall>d. store (elapse ser d ?w') = store ?w' \<and> requests (elapse ser d ?w') = requests w"
    using cancelled unsent by (simp add: elapse_idle)
  have game: "games_games (store ?w') gameId =
      Some ((game ?M)\<lparr> savedId := savedId localGame, authorId := authorId localGame,
        shareToken := shareToken localGame, createdAt := createdAt localGame,
        version := Some (row_version remote) \<rparr>)"
    unfolding st' by (simp add: applyRemoteGameUpdate_games [OF assms(1)])
  have fs: "\<forall>x \<in> factory_id ` set (factories ?M).
      factories_factories (store ?w') x = List.find (\<lambda>f. factory_id f = x) (rev (factories ?M))"
    unfolding st' applyRemoteGameUpdate_factories [OF assms(1)]
    by (intro ballI find_last_known)
  have ss: "\<forall>x \<in> solver_id ` set (solvers ?M).
      solvers_instances (store ?w') x = List.find (\<lambda>s. solver_id s = x) (rev (solvers ?M))"
    unfolding st' applyRemoteGameUpdate_solvers [OF assms(1)]
    by (intro ballI find_last_known)
  have gone: "\<forall>x \<in> set (factoriesIds localGame).
      x \<notin> factory_id ` set (factories ?M) \<longrightarrow> factories_factories (store ?w') x = None"
    unfolding st' using applyRemoteGameUpdate_factory_deleted [OF assms(1)] by blast
  show ?thesis
    using cancelled st' unsent later game fs ss gone by (intro conjI)
qed

text \<open>
  The edit of \<open>g1\<close> is pending when version 6 arrives. Five seconds later nothing has
  been sent, and the store has the remote name and version, the remote's B and C, and
  the local-only A with its solver.
\<close>

lemma ex_merge:
  "mergeGameState ex_local ex_remote =
     \<lparr> game = ex_game_remote\<lparr> factoriesIds := [''b'', ''c'', ''a''] \<rparr>,
       factories = [ex_B', ex_C, ex_A], solvers = [ex_solver_a] \<rparr>"
  by (simp add: mergeGameState_def ex_local_def ex_remote_def ex_game_remote_def
      ex_A_def ex_B_def ex_B'_def ex_C_def ex_solver_a_def ex_solver_b_def)

theorem remote_update_cancels_pending_push_witness:
  "syncGameToRemote_timer ex_pending = Some (''g1'', 1000)
   \<and> syncGameToRemote_timer (handleRemoteUpdate serializeGame ''g1'' (ex_row 6) ex_pending) = None
   \<and> requests (elapse serializeGame 5000
        (handleRemoteUpdate serializeGame ''g1'' (ex_row 6) ex_pending)) = []
   \<and> store (elapse serializeGame 5000
        (handleRemoteUpdate serializeGame ''g1'' (ex_row 6) ex_pending)) =
       applyRemoteGameUpdate ''g1''
         (mergeGameState (serializeGame ex_store ''g1'') ex_remote) 6 ex_store
   \<and> games_games (store (elapse serializeGame 5000
        (handleRemoteUpdate serializeGame ''g1'' (ex_row 6) ex_pending))) ''g1'' =
       Some \<lparr> game_id = ''g1'', name = ''Remote name'', factoriesIds = [''b'', ''c'', ''a''],
              savedId = Some ''row-1'', authorId = Some ''alice'', shareToken = Some ''tok'',
              createdAt = Some ''2025-01-01'', version = Some 6 \<rparr>
   \<and> factories_factories (store (elapse serializeGame 5000
        (handleRemoteUpdate serializeGame ''g1'' (ex_row 6) ex_pending))) ''b'' = Some ex_B'
   \<and> factories_factories (store (elapse serializeGame 5000
        (handleRemoteUpdate serializeGame ''g1'' (ex_row 6) ex_pending))) ''a'' = Some ex_A
   \<and> solvers_instances (store (elapse serializeGame 5000
        (handleRemoteUpdate serializeGame ''g1'' (ex_row 6) ex_pending))) ''a'' = Some ex_solver_a"
proof -
  let ?W = "handleRemoteUpdate serializeGame ''g1'' (ex_row 6) ex_pending"
  have g: "games_games (store ex_pending) ''g1'' = Some ex_game_local"
    by (simp add: ex_pending_eq ex_world_def ex_store_g1)
  have v: "versionOr1 ex_game_local < row_version (ex_row 6)"
    by (simp add: ex_row_def ex_g1_version)
  have t: "syncGameToRemote_timer ex_pending = Some (''g1'', 1000)"
    by (simp add: ex_pending_eq)
  have n: "now ex_pending < 1000"
    by (simp add: ex_pending_eq ex_world_def)
  have s: "store ex_pending = ex_store" "row_data (ex_row 6) = ex_remote"
    "requests ex_pending = []" "row_version (ex_row 6) = 6"
    by (simp_all add: ex_pending_eq ex_world_def ex_row_def)
  have M: "mergeGameState (serializeGame (store ex_pending) ''g1'') (row_data (ex_row 6)) =
      \<lparr> game = ex_game_remote\<lparr> factoriesIds := [''b'', ''c'', ''a''] \<rparr>,
        factories = [ex_B', ex_C, ex_A], solvers = [ex_solver_a] \<rparr>"
    by (simp add: s serializeGame_ex_g1 ex_merge)
  let ?M = "mergeGameState (serializeGame (store ex_pending) ''g1'') (row_data (ex_row 6))"
  note T = remote_update_cancels_pending_push [OF g v t n, of serializeGame]
  have cancelled: "syncGameToRemote_timer ?W = None"
    using T by blast
  have c2: "store ?W = applyRemoteGameUpdate ''g1'' ?M (row_version (ex_row 6)) (store ex_pending)"
    using T by blast
  have c3: "\<forall>d. store (elapse serializeGame d ?W) = store ?W
      \<and> requests (elapse serializeGame d ?W) = requests ex_pending"
    using T by blast
  have c4: "games_games (store ?W) ''g1'' =
      Some ((game ?M)\<lparr> savedId := savedId ex_game_local, authorId := authorId ex_game_local,
        shareToken := shareToken ex_game_local, createdAt := createdAt ex_game_local,
        version := Some (row_version (ex_row 6)) \<rparr>)"
    using T by blast
  have c5: "\<forall>x \<in> factory_id ` set (factories ?M).
      factories_factories (store ?W) x = List.find (\<lambda>f. factory_id f = x) (rev (factories ?M))"
    using T by blast
  have c6: "\<forall>x \<in> solver_id ` set (solvers ?M).
      solvers_instances (store ?W) x = List.find (\<lambda>s. solver_id s = x) (rev (solvers ?M))"
    using T by blast
  have later: "store (elapse serializeGame 5000 ?W) = store ?W"
    "requests (elapse serializeGame 5000 ?W) = []"
    using c3 [rule_format, of 5000] s(3) by simp_all
  have applied: "store ?W = applyRemoteGameUpdate ''g1''
      (mergeGameState (serializeGame ex_store ''g1'') ex_remote) 6 ex_store"
    using c2 by (simp only: s)
  have game: "games_games (store ?W) ''g1'' =
      Some \<lparr> game_id = ''g1'', name = ''Remote name'', factoriesIds = [''b'', ''c'', ''a''],
        savedId = Some ''row-1'', authorId = Some ''alice'', shareToken = Some ''tok'',
        createdAt = Some ''2025-01-01'', version = Some 6 \<rparr>"
    unfolding c4 M by (simp add: s ex_game_remote_def ex_game_local_def)
  have in_fs: "''b'' \<in> factory_id ` set (factories ?M)" "''a'' \<in> factory_id ` set (factories ?M)"
    and in_ss: "''a'' \<in> solver_id ` set (solvers ?M)"
    unfolding M by (simp_all add: ex_A_def ex_B'_def ex_C_def ex_solver_a_def)
  have fs: "factories_factories (store ?W) ''b'' = Some ex_B'"
    "factories_factories (store ?W) ''a'' = Some ex_A"
    unfolding c5 [rule_format, OF in_fs(1)] c5 [rule_format, OF in_fs(2)] M
    by (simp_all add: ex_A_def ex_B'_def ex_C_def)
  have ss: "solvers_instances (store ?W) ''a'' = Some ex_solver_a"
    unfolding c6 [rule_format, OF in_ss] M
    by (simp add: ex_solver_a_def)
  show ?thesis
    using t cancelled later applied game fs ss by simp
qed

text \<open>
  The claim as stated has the local state equal exactly the merge result. On the same
  run the stored game keeps the local \<open>savedId\<close>, which the merged game does not have,
  and the store still holds the solver of B, which the merge result does not contain.
\<close>

theorem applied_merge_is_not_the_merge_result:
  "map_option savedId (games_games (store (elapse serializeGame 5000
      (handleRemoteUpdate serializeGame ''g1'' (ex_row 6) ex_pending))) ''g1'') =
     Some (Some ''row-1'')
   \<and> savedId (game (mergeGameState (serializeGame ex_store ''g1'') ex_remote)) = None
   \<and> solvers_instances (store (elapse serializeGame 5000
        (handleRemoteUpdate serializeGame ''g1'' (ex_row 6) ex_pending))) ''b'' =
       Some ex_solver_b
   \<and> ''b'' \<notin> solver_id ` set (solvers (mergeGameState (serializeGame ex_store ''g1'') ex_remote))"
proof -
  let ?W = "handleRemoteUpdate serializeGame ''g1'' (ex_row 6) ex_pending"
  have g: "games_games (store ex_pending) ''g1'' = Some ex_game_local"
    by (simp add: ex_pending_eq ex_world_def ex_store_g1)
  have v: "versionOr1 ex_game_local < row_version (ex_row 6)"
    by (simp add: ex_row_def ex_g1_version)
  have s: "store ex_pending = ex_store" "row_data (ex_row 6) = ex_remote"
    "row_version (ex_row 6) = 6"
    by (simp_all add: ex_pending_eq ex_world_def ex_row_def)
  have W: "?W = ex_pending\<lparr> syncGameToRemote_timer := None,
      store := applyRemoteGameUpdate ''g1'' (mergeGameState ex_local ex_remote) 6 ex_store \<rparr>"
    using handleRemoteUpdate_newer [OF g v, of serializeGame]
    by (simp add: s serializeGame_ex_g1)
  have later: "store (elapse serializeGame 5000 ?W) =
      applyRemoteGameUpdate ''g1'' (mergeGameState ex_local ex_remote) 6 ex_store"
    by (simp add: W elapse_idle)
  have kept: "map_option savedId (games_games
      (applyRemoteGameUpdate ''g1'' (mergeGameState ex_local ex_remote) 6 ex_store) ''g1'') =
      Some (Some ''row-1'')"
    by (simp add: applyRemoteGameUpdate_games [OF ex_store_g1] ex_game_local_def)
  have stale: "solvers_instances
      (applyRemoteGameUpdate ''g1'' (mergeGameState ex_local ex_remote) 6 ex_store) ''b'' =
      Some ex_solver_b"
    unfolding applyRemoteGameUpdate_solvers [OF ex_store_g1] ex_merge
    by (simp add: ex_solver_a_def ex_game_local_def ex_A_def ex_B'_def ex_C_def)
       (simp add: ex_store_def)
  have merged: "savedId (game (mergeGameState ex_local ex_remote)) = None"
    "''b'' \<notin> solver_id ` set (solvers (mergeGameState ex_local ex_remote))"
    by (simp_all add: ex_merge ex_game_remote_def ex_solver_a_def)
  show ?thesis
    using kept stale merged by (simp add: later serializeGame_ex_g1)
qed

section \<open>Outbound path: the result of a push\<close>

lemma setSyncError_state [simp]: "fst (setSyncError gameId error st) = st"
  by (simp add: setSyncError_def)

lemma setSyncError_None [simp]: "snd (setSyncError gameId None st) = []"
  by (simp add: setSyncError_def)

lemma setSyncError_logged:
  "snd (setSyncError gameId (Some e) st) =
     (if e = [] then []
      else [\<lparr> log_message = ''Sync error for game'', log_gameId = Some gameId, log_error = e \<rparr>])"
  by (simp add: setSyncError_def)

lemma callSetSyncError_eq:
  "callSetSyncError gameId error w =
     w\<lparr> errorLog := errorLog w @ snd (setSyncError gameId error (store w)) \<rparr>"
  by (simp add: callSetSyncError_def setSyncError_def)

lemma syncGameToRemote_settled_Failed:
  "syncGameToRemote_settled gameId (Failed message) w =
     w\<lparr> store := (store w)\<lparr> gameSave_isSaving := False \<rparr>,
        errorLog := errorLog w @
          \<lparr> log_message = ''Sync failed'', log_gameId = None, log_error = message \<rparr> #
          snd (setSyncError gameId (Some message) (store w)) \<rparr>"
  by (simp add: syncGameToRemote_settled_def callSetSyncError_eq logError_def
      setSyncingState_def)

lemma syncGameToRemote_settled_Thrown:
  "syncGameToRemote_settled gameId (Thrown e) w =
     w\<lparr> store := (store w)\<lparr> gameSave_isSaving := False \<rparr>,
        errorLog := errorLog w @
          \<lparr> log_message = ''Sync error'', log_gameId = None, log_error = e \<rparr> #
          snd (setSyncError gameId (Some e) (store w)) \<rparr>"
  by (simp add: syncGameToRemote_settled_def callSetSyncError_eq logError_def
      setSyncingState_def)

lemma syncGameImmediately_settled_Failed:
  "syncGameImmediately_settled gameId (Failed message) w =
     (w\<lparr> store := (store w)\<lparr> gameSave_isSaving := False \<rparr>,
         errorLog := errorLog w @ snd (setSyncError gameId (Some message) (store w)) \<rparr>, False)"
  by (simp add: syncGameImmediately_settled_def callSetSyncError_eq setSyncingState_def)

lemma syncGameImmediately_settled_Thrown:
  "syncGameImmediately_settled gameId (Thrown e) w =
     (w\<lparr> store := (store w)\<lparr> gameSave_isSaving := False \<rparr>,
         errorLog := errorLog w @ snd (setSyncError gameId (Some e) (store w)) \<rparr>, False)"
  by (simp add: syncGameImmediately_settled_def callSetSyncError_eq setSyncingState_def)

lemma syncGameToRemote_settled_Updated:
  assumes "games_games (store w) gameId = Some g"
  shows "syncGameToRemote_settled gameId (Updated v) w =
     w\<lparr> store := (store w)\<lparr> games_games := (games_games (store w))(gameId \<mapsto> g\<lparr> version := Some v \<rparr>),
                              gameSave_isSaving := False \<rparr> \<rparr>"
  using assms
  by (simp add: syncGameToRemote_settled_def callSetSyncError_eq setSyncingState_def
      setGameVersion_def)

lemma syncGameImmediately_settled_Updated:
  assumes "games_games (store w) gameId = Some g"
  shows "syncGameImmediately_settled gameId (Updated v) w =
     (w\<lparr> store := (store w)\<lparr> games_games := (games_games (store w))(gameId \<mapsto> g\<lparr> version := Some v \<rparr>),
                              gameSave_isSaving := False \<rparr> \<rparr>, True)"
  using assms
  by (simp add: syncGameImmediately_settled_def callSetSyncError_eq setSyncingState_def
      setGameVersion_def)

lemma retry_same_request:
  assumes "store w' = (store w)\<lparr> gameSave_isSaving := b \<rparr>" and "requests w' = requests w"
  shows "requests (syncGameToRemote_body ser gameId w') =
           requests (syncGameToRemote_body ser gameId w)"
  using assms by (simp add: syncGameToRemote_body_eq split: option.splits)

lemma retry_same_request_immediately:
  assumes "store w' = (store w)\<lparr> gameSave_isSaving := b \<rparr>" and "requests w' = requests w"
  shows "requests (fst (syncGameImmediately_body ser gameId w')) =
           requests (fst (syncGameImmediately_body ser gameId w))"
  using assms by (simp add: syncGameImmediately_body_eq split: option.splits)

text \<open>
  C6, as amended. When the remote update of a push returns an error, \<open>setSyncError\<close> is
  called with the message: it returns the state untouched and, for a non-empty message,
  logs the one line "Sync error for game" with the game and the message, and that line
  (after the push's own "Sync failed" for the debounced push) is all the failure adds to
  the error log. The store is what it was with the syncing flag cleared: the version is
  unchanged, and the next push of that game sends the same request, with the same target
  version, as the failed one. An exception in the push leaves the store the same way.
  Only when the update succeeds does the version change: it becomes the version the
  remote echoes back. All of it holds for the debounced push and for
  \<open>syncGameImmediately\<close>.
\<close>

theorem push_failure_keeps_version:
  "store (syncGameToRemote_settled gameId (Failed message) w) =
      (store w)\<lparr> gameSave_isSaving := False \<rparr>
   \<and> store (fst (syncGameImmediately_settled gameId (Failed message) w)) =
      (store w)\<lparr> gameSave_isSaving := False \<rparr>
   \<and> requests (syncGameToRemote_body ser gameId
        (syncGameToRemote_settled gameId (Failed message) w)) =
      requests (syncGameToRemote_body ser gameId w)
   \<and> requests (fst (syncGameImmediately_body ser gameId
        (fst (syncGameImmediately_settled gameId (Failed message) w)))) =
      requests (fst (syncGameImmediately_body ser gameId w))
   \<and> (\<forall>g. games_games (store w) gameId = Some g \<longrightarrow>
          games_games (store (syncGameToRemote_settled gameId (Updated v) w)) gameId =
            Some (g\<lparr> version := Some v \<rparr>)
          \<and> games_games (store (fst (syncGameImmediately_settled gameId (Updated v) w))) gameId =
            Some (g\<lparr> version := Some v \<rparr>))
   \<and> store (syncGameToRemote_settled gameId (Thrown e) w) =
      (store w)\<lparr> gameSave_isSaving := False \<rparr>
   \<and> store (fst (syncGameImmediately_settled gameId (Thrown e) w)) =
      (store w)\<lparr> gameSave_isSaving := False \<rparr>
   \<and> fst (setSyncError gameId (Some message) (store w)) = store w
   \<and> (message \<noteq> [] \<longrightarrow>
        snd (setSyncError gameId (Some message) (store w)) =
          [\<lparr> log_message = ''Sync error for game'', log_gameId = Some gameId,
             log_error = message \<rparr>])
   \<and> errorLog (syncGameToRemote_settled gameId (Failed message) w) =
      errorLog w @
        \<lparr> log_message = ''Sync failed'', log_gameId = None, log_error = message \<rparr> #
        snd (setSyncError gameId (Some message) (store w))
   \<and> errorLog (fst (syncGameImmediately_settled gameId (Failed message) w)) =
      errorLog w @ snd (setSyncError gameId (Some message) (store w))"
proof -
  have retry: "requests (syncGameToRemote_body ser gameId
        (syncGameToRemote_settled gameId (Failed message) w)) =
      requests (syncGameToRemote_body ser gameId w)"
    by (rule retry_same_request [where b = False])
       (simp_all add: syncGameToRemote_settled_Failed)
  have retry_now: "requests (fst (syncGameImmediately_body ser gameId
        (fst (syncGameImmediately_settled gameId (Failed message) w)))) =
      requests (fst (syncGameImmediately_body ser gameId w))"
    by (rule retry_same_request_immediately [where b = False])
       (simp_all add: syncGameImmediately_settled_Failed)
  show ?thesis
    using retry retry_now
    by (simp add: syncGameToRemote_settled_Failed syncGameImmediately_settled_Failed
        syncGameToRemote_settled_Thrown syncGameImmediately_settled_Thrown
        syncGameToRemote_settled_Updated syncGameImmediately_settled_Updated
        setSyncError_logged)
qed

theorem push_failure_keeps_version_witness:
  "games_games (store ex_inflight) ''g1'' = Some ex_game_local
   \<and> store (syncGameToRemote_settled ''g1'' (Failed ''timeout'') ex_inflight) = ex_store
   \<and> map req_version (requests (syncGameToRemote_body serializeGame ''g1''
        (syncGameToRemote_settled ''g1'' (Failed ''timeout'') ex_inflight))) = [6, 6]
   \<and> games_games (store (syncGameToRemote_settled ''g1'' (Updated 6) ex_inflight)) ''g1'' =
        Some (ex_game_local\<lparr> version := Some 6 \<rparr>)
   \<and> store (syncGameToRemote_settled ''g1'' (Thrown ''TypeError'') ex_inflight) = ex_store
   \<and> errorLog (syncGameToRemote_settled ''g1'' (Failed ''timeout'') ex_inflight) =
        [\<lparr> log_message = ''Sync failed'', log_gameId = None, log_error = ''timeout'' \<rparr>,
         \<lparr> log_message = ''Sync error for game'', log_gameId = Some ''g1'',
           log_error = ''timeout'' \<rparr>]
   \<and> errorLog (fst (syncGameImmediately_settled ''g1'' (Failed ''timeout'') ex_inflight)) =
        [\<lparr> log_message = ''Sync error for game'', log_gameId = Some ''g1'',
           log_error = ''timeout'' \<rparr>]"
proof -
  have g: "games_games (store ex_inflight) ''g1'' = Some ex_game_local"
    by (simp add: ex_inflight_eq ex_store_g1)
  have s: "(store ex_inflight)\<lparr> gameSave_isSaving := False \<rparr> = ex_store"
    by (simp add: ex_inflight_eq ex_store_def)
  have r: "map req_version (requests (syncGameToRemote_body serializeGame ''g1'' ex_inflight)) =
      [6, 6]"
    by (simp add: syncGameToRemote_body_eq ex_inflight_eq ex_push_g1)
  have m: "''timeout'' \<noteq> []" and l: "errorLog ex_inflight = []"
    by (simp_all add: ex_inflight_eq)
  from push_failure_keeps_version
         [of "''g1''" "''timeout''" ex_inflight serializeGame 6 "''TypeError''"] g s r m l
  show ?thesis by simp
qed

text \<open>
  The claim as stated has the failed push set a per-game sync error to the error message.
  Two failures with different messages leave the same store, the store from before the
  push: nothing in shared state records the message.
\<close>

theorem push_failure_sets_no_error:
  "store (syncGameToRemote_settled ''g1'' (Failed ''timeout'') ex_inflight) =
     store (syncGameToRemote_settled ''g1'' (Failed ''forbidden'') ex_inflight)
   \<and> store (syncGameToRemote_settled ''g1'' (Failed ''timeout'') ex_inflight) = ex_store
   \<and> store (fst (syncGameImmediately_settled ''g1'' (Failed ''timeout'') ex_inflight)) = ex_store"
  by (simp add: syncGameToRemote_settled_Failed syncGameImmediately_settled_Failed
      ex_inflight_eq ex_store_def)

section \<open>Inbound path: row deleted\<close>

lemma handleRemoteDelete_no_session:
  "auth_session st = None \<Longrightarrow> handleRemoteDelete rm gameId st = st"
  by (simp add: handleRemoteDelete_def split: option.splits)

lemma handleRemoteDelete_owner:
  "games_games st gameId = Some g \<Longrightarrow> auth_session st = Some s \<Longrightarrow>
     authorId g = Some (user_id s) \<Longrightarrow> handleRemoteDelete rm gameId st = st"
  by (simp add: handleRemoteDelete_def)

lemma handleRemoteDelete_other:
  "games_games st gameId = Some g \<Longrightarrow> auth_session st = Some s \<Longrightarrow>
     authorId g \<noteq> Some (user_id s) \<Longrightarrow> handleRemoteDelete rm gameId st = rm gameId st"
  by (simp add: handleRemoteDelete_def)

text \<open>
  C8, as amended. For a delete notification about a game that is in the store: with no
  session the store is untouched; with a session whose user is the game's author the
  store is untouched; with a session whose user is not the author the store becomes what
  \<open>removeGame\<close> makes of it for that game, whatever store action \<open>removeGame\<close> is.
\<close>

theorem remote_delete_ownership_gate:
  assumes "games_games st gameId = Some g"
  shows "(auth_session st = None \<longrightarrow> handleRemoteDelete rm gameId st = st)
         \<and> (\<forall>s. auth_session st = Some s \<longrightarrow>
               (authorId g = Some (user_id s) \<longrightarrow> handleRemoteDelete rm gameId st = st)
               \<and> (authorId g \<noteq> Some (user_id s) \<longrightarrow>
                    handleRemoteDelete rm gameId st = rm gameId st))"
  using assms
  by (simp add: handleRemoteDelete_no_session handleRemoteDelete_owner handleRemoteDelete_other)

text \<open>
  With the \<open>removeGame\<close> of the spec, Bob's store loses Alice's deleted game and its
  children, and Alice's own store keeps it.
\<close>

theorem remote_delete_ownership_gate_witness:
  "games_games ex_store ''g1'' = Some ex_game_local
   \<and> games_games ex_store_alice ''g1'' = Some ex_game_local
   \<and> handleRemoteDelete removeGame ''g1'' ex_store_alice = ex_store_alice
   \<and> games_games (handleRemoteDelete removeGame ''g1'' ex_store) ''g1'' = None
   \<and> factories_factories (handleRemoteDelete removeGame ''g1'' ex_store) ''a'' = None
   \<and> solvers_instances (handleRemoteDelete removeGame ''g1'' ex_store) ''b'' = None"
proof -
  have ga: "games_games ex_store_alice ''g1'' = Some ex_game_local"
    by (simp add: ex_store_alice_def ex_store_g1)
  have sa: "auth_session ex_store_alice = Some \<lparr> user_id = ''alice'', expires_at = None \<rparr>"
    "authorId ex_game_local = Some (user_id \<lparr> user_id = ''alice'', expires_at = None \<rparr>)"
    by (simp_all add: ex_store_alice_def ex_game_local_def)
  have sb: "auth_session ex_store = Some ex_session"
    "authorId ex_game_local \<noteq> Some (user_id ex_session)"
    by (simp_all add: ex_store_def ex_game_local_def ex_session_def)
  have ids: "''a'' \<in> set (factoriesIds ex_game_local)" "''b'' \<in> set (factoriesIds ex_game_local)"
    by (simp_all add: ex_game_local_def)
  from remote_delete_ownership_gate [OF ga, of removeGame] sa
  have "handleRemoteDelete removeGame ''g1'' ex_store_alice = ex_store_alice" by blast
  moreover from remote_delete_ownership_gate [OF ex_store_g1, of removeGame] sb
  have "handleRemoteDelete removeGame ''g1'' ex_store = removeGame ''g1'' ex_store" by blast
  ultimately show ?thesis
    using ga ex_store_g1 removeGame_present [OF ex_store_g1] ids by simp
qed

text \<open>
  The claim as stated removes the game whenever its author differs from the current user.
  Signed out, there is no current user for Alice's game to belong to, and the handler
  leaves the game in place.
\<close>

theorem remote_delete_signed_out_keeps_game:
  "auth_session ex_store_signed_out = None
   \<and> authorId ex_game_local = Some ''alice''
   \<and> games_games ex_store_signed_out ''g1'' = Some ex_game_local
   \<and> games_games (handleRemoteDelete removeGame ''g1'' ex_store_signed_out) ''g1'' =
       Some ex_game_local
   \<and> handleRemoteDelete removeGame ''g1'' ex_store_signed_out = ex_store_signed_out"
  by (simp add: handleRemoteDelete_no_session ex_store_signed_out_def ex_store_g1
      ex_game_local_def)

section \<open>Outbound path: the debounce timer\<close>

text \<open>What \<open>triggerSync\<close> requires of its target: a non-empty id of a game with a \<open>savedId\<close>.\<close>

definition isSavedGame :: "Store \<Rightarrow> string \<Rightarrow> bool" where
  "isSavedGame st gameId =
     (gameId \<noteq> [] \<and> (case games_games st gameId of None \<Rightarrow> False | Some g \<Rightarrow> truthy (savedId g)))"

text \<open>
  A burst of edits: each entry waits \<open>d\<close> milliseconds and then calls
  \<open>triggerSync\<close> for its game.
\<close>

fun burst :: "serializer \<Rightarrow> (nat \<times> string) list \<Rightarrow> World \<Rightarrow> World" where
  "burst ser [] w = w"
| "burst ser ((d, gameId) # rest) w = burst ser rest (triggerSync (Some gameId) (elapse ser d w))"

lemma triggerSync_saved:
  "isSavedGame (store w) gameId \<Longrightarrow>
     triggerSync (Some gameId) w =
       w\<lparr> syncGameToRemote_timer := Some (gameId, now w + SYNC_DEBOUNCE_MS) \<rparr>"
  by (auto simp: isSavedGame_def triggerSync_def syncGameToRemote_def split: option.splits)

lemma elapse_before_due:
  "syncGameToRemote_timer w = Some (g, due) \<Longrightarrow> now w + d < due \<Longrightarrow>
     elapse ser d w = w\<lparr> now := now w + d \<rparr>"
  by (simp add: elapse_def)

lemma elapse_due:
  "syncGameToRemote_timer w = Some (g, due) \<Longrightarrow> due \<le> now w + d \<Longrightarrow>
     elapse ser d w =
       syncGameToRemote_body ser g (w\<lparr> now := now w + d, syncGameToRemote_timer := None \<rparr>)"
  by (simp add: elapse_def)

lemma burst_resets_timer:
  assumes "syncGameToRemote_timer w = Some (g0, now w + SYNC_DEBOUNCE_MS)"
    and "\<forall>c \<in> set cs. fst c < SYNC_DEBOUNCE_MS \<and> isSavedGame (store w) (snd c)"
  shows "burst ser cs w =
           w\<lparr> now := now w + sum_list (map fst cs),
              syncGameToRemote_timer :=
                Some (last (g0 # map snd cs), now w + sum_list (map fst cs) + SYNC_DEBOUNCE_MS) \<rparr>"
  using assms
proof (induction cs arbitrary: w g0)
  case Nil
  then show ?case by simp
next
  case (Cons c cs)
  obtain d g where c: "c = (d, g)" by (cases c)
  let ?w1 = "w\<lparr> now := now w + d,
                 syncGameToRemote_timer := Some (g, now w + d + SYNC_DEBOUNCE_MS) \<rparr>"
  from Cons.prems c have d: "d < SYNC_DEBOUNCE_MS" and g: "isSavedGame (store w) g"
    by simp_all
  have "elapse ser d w = w\<lparr> now := now w + d \<rparr>"
    using Cons.prems(1) d by (simp add: elapse_before_due)
  then have step: "triggerSync (Some g) (elapse ser d w) = ?w1"
    using g by (simp add: triggerSync_saved)
  have "burst ser cs ?w1 =
      ?w1\<lparr> now := now ?w1 + sum_list (map fst cs),
            syncGameToRemote_timer :=
              Some (last (g # map snd cs), now ?w1 + sum_list (map fst cs) + SYNC_DEBOUNCE_MS) \<rparr>"
    using Cons.prems(2) by (intro Cons.IH) simp_all
  then show ?case
    using step c by (simp add: add.assoc)
qed

text \<open>
  C1, as amended. There is one delayed-push timer, shared by all games. After a call of
  \<open>triggerSync\<close> for a saved game followed by any burst of further calls, each less than
  1000 ms after the one before and each for any saved game, exactly one push is pending:
  that of the last call's game, due 1000 ms after that call; the store is unchanged and
  nothing has been sent. When the 1000 ms have passed (with a session), exactly one
  request is sent, for the saved row of the last call's game, and no push is pending.
\<close>

theorem debounce_one_shared_timer:
  assumes "isSavedGame (store w) g0"
    and "\<forall>c \<in> set cs. fst c < SYNC_DEBOUNCE_MS \<and> isSavedGame (store w) (snd c)"
    and "auth_session (store w) = Some session"
  shows "syncGameToRemote_timer (burst ser cs (triggerSync (Some g0) w)) =
           Some (last (g0 # map snd cs),
                 now (burst ser cs (triggerSync (Some g0) w)) + SYNC_DEBOUNCE_MS)
         \<and> store (burst ser cs (triggerSync (Some g0) w)) = store w
         \<and> requests (burst ser cs (triggerSync (Some g0) w)) = requests w
         \<and> (\<exists>r g. requests (elapse ser SYNC_DEBOUNCE_MS (burst ser cs (triggerSync (Some g0) w))) =
                     requests w @ [r]
                 \<and> games_games (store w) (last (g0 # map snd cs)) = Some g
                 \<and> savedId g = Some (req_id r))
         \<and> syncGameToRemote_timer
             (elapse ser SYNC_DEBOUNCE_MS (burst ser cs (triggerSync (Some g0) w))) = None"
proof -
  let ?w0 = "triggerSync (Some g0) w"
  let ?last = "last (g0 # map snd cs)"
  have w0: "?w0 = w\<lparr> syncGameToRemote_timer := Some (g0, now w + SYNC_DEBOUNCE_MS) \<rparr>"
    using assms(1) by (rule triggerSync_saved)
  have b: "burst ser cs ?w0 =
      ?w0\<lparr> now := now ?w0 + sum_list (map fst cs),
            syncGameToRemote_timer :=
              Some (?last, now ?w0 + sum_list (map fst cs) + SYNC_DEBOUNCE_MS) \<rparr>"
    using assms(2) by (intro burst_resets_timer) (simp_all add: w0)
  let ?w' = "burst ser cs ?w0"
  have t: "syncGameToRemote_timer ?w' = Some (?last, now ?w' + SYNC_DEBOUNCE_MS)"
    and st: "store ?w' = store w" and rq: "requests ?w' = requests w"
    using b w0 by simp_all
  have "?last \<in> set (g0 # map snd cs)" by (rule last_in_set) simp
  then have saved: "isSavedGame (store w) ?last"
    using assms(1,2) by auto
  then obtain g sid where g: "games_games (store w) ?last = Some g"
    and sid: "savedId g = Some sid" "sid \<noteq> []"
    by (auto simp: isSavedGame_def truthy_def split: option.splits)
  have fire: "elapse ser SYNC_DEBOUNCE_MS ?w' =
      syncGameToRemote_body ser ?last
        (?w'\<lparr> now := now ?w' + SYNC_DEBOUNCE_MS, syncGameToRemote_timer := None \<rparr>)"
    by (rule elapse_due [OF t]) simp
  have "requests (elapse ser SYNC_DEBOUNCE_MS ?w') =
      requests w @ [\<lparr> req_id = sid,
                       req_data = ser (setSyncingState ?last True (store w)) ?last,
                       req_version = versionOr1 g + 1, req_name = name g \<rparr>]"
    and "syncGameToRemote_timer (elapse ser SYNC_DEBOUNCE_MS ?w') = None"
    using g sid assms(3) st rq
    by (simp_all add: fire syncGameToRemote_body_def Let_def)
  then show ?thesis using t st rq g sid by simp
qed

lemma ex_saved: "isSavedGame (store ex_world) ''g1''" "isSavedGame (store ex_world) ''g2''"
  by (simp_all add: isSavedGame_def ex_world_def ex_store_g1 ex_store_g2 truthy_def
      ex_game_local_def ex_game2_def)

lemma ex_two_calls_eq:
  "ex_two_calls = ex_world\<lparr> now := 500, syncGameToRemote_timer := Some (''g2'', 1500) \<rparr>"
  by (simp add: ex_two_calls_def triggerSync_saved ex_saved elapse_def SYNC_DEBOUNCE_MS_def)
     (simp add: ex_world_def)

theorem debounce_one_shared_timer_witness:
  "isSavedGame (store ex_world) ''g1'' \<and> isSavedGame (store ex_world) ''g2''
   \<and> auth_session (store ex_world) = Some ex_session
   \<and> syncGameToRemote_timer ex_two_calls = Some (''g2'', 1500)
   \<and> requests ex_two_calls = []
   \<and> length (requests (elapse serializeGame 1000 ex_two_calls)) = 1"
proof -
  have s: "auth_session (store ex_world) = Some ex_session"
    by (simp add: ex_world_def ex_store_def)
  have c: "\<forall>c \<in> set [(500, ''g2'')]. fst c < SYNC_DEBOUNCE_MS \<and> isSavedGame (store ex_world) (snd c)"
    by (simp add: ex_saved SYNC_DEBOUNCE_MS_def)
  have b: "burst serializeGame [(500, ''g2'')] (triggerSync (Some ''g1'') ex_world) = ex_two_calls"
    by (simp add: ex_two_calls_def)
  have r: "requests ex_world = []" "now ex_two_calls = 500"
    by (simp_all add: ex_world_def ex_two_calls_eq)
  from debounce_one_shared_timer [OF ex_saved(1) c s, of serializeGame]
  obtain r0 where "syncGameToRemote_timer ex_two_calls = Some (''g2'', 1500)"
    "requests ex_two_calls = []"
    "requests (elapse serializeGame 1000 ex_two_calls) = [r0]"
    unfolding b by (auto simp: r SYNC_DEBOUNCE_MS_def)
  then show ?thesis using ex_saved s by simp
qed

text \<open>
  The claim as stated keeps one timer per game. A call for \<open>g2\<close> 500 ms after a call
  for \<open>g1\<close> replaces the pending push of \<open>g1\<close>, and five seconds later the only request
  sent is the one for the row of \<open>g2\<close>.
\<close>

theorem second_aggregate_replaces_pending_push:
  "syncGameToRemote_timer (triggerSync (Some ''g1'') ex_world) = Some (''g1'', 1000)
   \<and> syncGameToRemote_timer
       (triggerSync (Some ''g2'') (elapse serializeGame 500 (triggerSync (Some ''g1'') ex_world))) =
       Some (''g2'', 1500)
   \<and> map req_id (requests (elapse serializeGame 5000
       (triggerSync (Some ''g2'') (elapse serializeGame 500 (triggerSync (Some ''g1'') ex_world))))) =
       [''row-2'']"
proof -
  have "map req_id (requests (elapse serializeGame 5000 ex_two_calls)) = [''row-2'']"
    by (simp add: ex_two_calls_eq elapse_def syncGameToRemote_body_def ex_world_def
        ex_store_g2 Let_def)
       (simp add: ex_store_def ex_game2_def Let_def)
  then show ?thesis
    using ex_pending_eq ex_two_calls_eq
    by (simp add: ex_pending_def ex_two_calls_def)
qed

section \<open>AuthSessionManager.tsx\<close>

text \<open>
  Source: the component that follows the schema in
  \<open>src/supabase/migrations/001_initial_schema.sql\<close> (lines 325 to 423).
\<close>

text \<open>
  The component with the timer facility it uses: the clock \<open>Date.now()\<close> in milliseconds,
  the timeouts that are set and have neither fired nor been cleared (handle and due time
  in milliseconds), the next handle \<open>setTimeout\<close> will return (handles are positive, so a
  stored handle is truthy), the ref holding the latest handle, and the session last given
  to \<open>setSession\<close>. The component's own arithmetic is exact (rationals); the rounding of
  JavaScript's doubles is not modelled.
\<close>

record AuthSessionManager =
  date_now :: int
  timeouts :: "(nat \<times> int) list"
  next_handle :: nat
  refreshTimeoutRef :: "nat option"
  stored_session :: "Session option"

definition REFRESH_MARGIN_MS :: rat where
  "REFRESH_MARGIN_MS = 5 * 60 * 1000"

text \<open>
  The browser's \<open>setTimeout\<close> takes its delay as a 32-bit signed integer of milliseconds:
  the number is truncated towards zero and wrapped modulo \<open>2^32\<close> into
  \<open>-2^31 .. 2^31 - 1\<close>, and a negative timeout counts as 0. A delay above 2147483647 ms
  (about 24.8 days) therefore does not wait that long.
\<close>

definition toInt32 :: "rat \<Rightarrow> int" where
  "toInt32 x =
     (let n = (if x < 0 then - \<lfloor>- x\<rfloor> else \<lfloor>x\<rfloor>);
          k = n mod 2 ^ 32
      in if 2 ^ 31 \<le> k then k - 2 ^ 32 else k)"

definition setTimeout_ms :: "rat \<Rightarrow> AuthSessionManager \<Rightarrow> nat \<times> AuthSessionManager" where
  "setTimeout_ms delay m =
     (let timeout = max 0 (toInt32 delay)
      in (next_handle m,
          m\<lparr> timeouts := timeouts m @ [(next_handle m, date_now m + timeout)],
             next_handle := Suc (next_handle m) \<rparr>))"

definition clearTimeout_of :: "nat \<Rightarrow> AuthSessionManager \<Rightarrow> AuthSessionManager" where
  "clearTimeout_of h m = m\<lparr> timeouts := filter (\<lambda>t. fst t \<noteq> h) (timeouts m) \<rparr>"

text \<open>\<open>if (refreshTimeoutRef.current) clearTimeout(refreshTimeoutRef.current)\<close>\<close>

definition clearRefreshTimeout :: "AuthSessionManager \<Rightarrow> AuthSessionManager" where
  "clearRefreshTimeout m =
     (case refreshTimeoutRef m of None \<Rightarrow> m | Some h \<Rightarrow> clearTimeout_of h m)"

definition scheduleTokenRefresh :: "int \<Rightarrow> AuthSessionManager \<Rightarrow> AuthSessionManager" where
  "scheduleTokenRefresh expiresAt m0 =
     (let m = clearRefreshTimeout m0;
          now = of_int (date_now m) / 1000;
          timeUntilExpiry = (of_int expiresAt - now) * 1000;
          refreshIn = max (timeUntilExpiry - REFRESH_MARGIN_MS) 0;
          (h, m') = setTimeout_ms refreshIn m
      in m'\<lparr> refreshTimeoutRef := Some h \<rparr>)"

text \<open>\<open>session?.expires_at\<close> as a condition: a session with a non-zero expiry.\<close>

definition knownExpiry :: "Session option \<Rightarrow> int option" where
  "knownExpiry s =
     (case s of
        None \<Rightarrow> None
      | Some session \<Rightarrow>
          (case expires_at session of None \<Rightarrow> None | Some e \<Rightarrow> if e = 0 then None else Some e))"

text \<open>
  Modelled from the spec: \<open>setSession\<close> (a store action of the auth slice) is not among
  the sources. Section 3: the one credential session is replaced wholesale on every
  refresh or auth-state transition. It does not touch the timers.
\<close>

definition setSession :: "Session option \<Rightarrow> AuthSessionManager \<Rightarrow> AuthSessionManager" where
  "setSession s m = m\<lparr> stored_session := s \<rparr>"

text \<open>
  The timeout's callback after its \<open>await refreshSession()\<close>: the new session, or null
  when the refresh failed.
\<close>

definition refreshSettled :: "Session option \<Rightarrow> AuthSessionManager \<Rightarrow> AuthSessionManager" where
  "refreshSettled newSession m =
     (case newSession of
        None \<Rightarrow> m
      | Some s \<Rightarrow>
          (let m1 = setSession (Some s) m
           in case knownExpiry (Some s) of
                None \<Rightarrow> m1
              | Some e \<Rightarrow> scheduleTokenRefresh e m1))"

text \<open>The \<open>then\<close> handler of the initial \<open>getSession()\<close>.\<close>

definition getSessionResolved :: "Session option \<Rightarrow> AuthSessionManager \<Rightarrow> AuthSessionManager" where
  "getSessionResolved session m =
     (let m1 = setSession session m
      in case knownExpiry session of
           None \<Rightarrow> m1
         | Some e \<Rightarrow> scheduleTokenRefresh e m1)"

datatype AuthChangeEvent = SIGNED_IN | SIGNED_OUT | TOKEN_REFRESHED | OTHER_EVENT

definition onAuthStateChange ::
    "AuthChangeEvent \<Rightarrow> Session option \<Rightarrow> AuthSessionManager \<Rightarrow> AuthSessionManager" where
  "onAuthStateChange event session m =
     (let m1 = (if event = SIGNED_OUT then clearRefreshTimeout m else m);
          m2 = setSession session m1
      in case knownExpiry session of
           None \<Rightarrow> m2
         | Some e \<Rightarrow>
             if event = SIGNED_IN \<or> event = TOKEN_REFRESHED then scheduleTokenRefresh e m2
             else m2)"

definition effectCleanup :: "AuthSessionManager \<Rightarrow> AuthSessionManager" where
  "effectCleanup m = clearRefreshTimeout m"

text \<open>
  What can happen to the mounted component: its handlers run, time passes, the timer
  facility fires whatever is due (the callback then awaits the refresh), the awaited
  refresh settles, the effect is cleaned up.
\<close>

datatype AuthStep =
    GetSessionResolved "Session option"
  | AuthStateChange AuthChangeEvent "Session option"
  | TimePasses nat
  | TimeoutFires
  | RefreshSettled "Session option"
  | EffectCleanup

definition fireDue :: "AuthSessionManager \<Rightarrow> AuthSessionManager" where
  "fireDue m = m\<lparr> timeouts := filter (\<lambda>t. date_now m < snd t) (timeouts m) \<rparr>"

fun authStep :: "AuthStep \<Rightarrow> AuthSessionManager \<Rightarrow> AuthSessionManager" where
  "authStep (GetSessionResolved s) m = getSessionResolved s m"
| "authStep (AuthStateChange e s) m = onAuthStateChange e s m"
| "authStep (TimePasses d) m = m\<lparr> date_now := date_now m + int d \<rparr>"
| "authStep TimeoutFires m = fireDue m"
| "authStep (RefreshSettled s) m = refreshSettled s m"
| "authStep EffectCleanup m = effectCleanup m"

definition mounted :: "int \<Rightarrow> AuthSessionManager" where
  "mounted t = \<lparr> date_now = t, timeouts = [], next_handle = 1, refreshTimeoutRef = None,
                 stored_session = None \<rparr>"

fun authRun :: "AuthStep list \<Rightarrow> AuthSessionManager \<Rightarrow> AuthSessionManager" where
  "authRun [] m = m"
| "authRun (e # es) m = authRun es (authStep e m)"

text \<open>
  The spec's delay, in milliseconds: \<open>max(0, (expiry - now) - REFRESH_MARGIN)\<close> with a
  margin of five minutes, \<open>expiry\<close> in seconds and \<open>now = Date.now() / 1000\<close>.
\<close>

definition refreshDelay :: "int \<Rightarrow> AuthSessionManager \<Rightarrow> int" where
  "refreshDelay expiresAt m = max 0 (expiresAt * 1000 - date_now m - 5 * 60 * 1000)"

text \<open>The invariant: at most one timeout is set, and it is the one the ref holds.\<close>

definition onlyRefTimer :: "AuthSessionManager \<Rightarrow> bool" where
  "onlyRefTimer m =
     (length (timeouts m) \<le> 1
      \<and> list_all (\<lambda>t. refreshTimeoutRef m = Some (fst t) \<and> fst t < next_handle m) (timeouts m))"

lemma toInt32_in_range: "0 \<le> n \<Longrightarrow> n < 2 ^ 31 \<Longrightarrow> toInt32 (of_int n) = n"
  by (simp add: toInt32_def Let_def)

lemma refreshIn_eq:
  "max ((of_int expiresAt - of_int (date_now m) / 1000) * 1000 - REFRESH_MARGIN_MS) 0 =
     (of_int (refreshDelay expiresAt m) :: rat)"
  by (simp add: refreshDelay_def REFRESH_MARGIN_MS_def max_def algebra_simps)

lemma onlyRefTimer_clear: "onlyRefTimer m \<Longrightarrow> timeouts (clearRefreshTimeout m) = []"
  by (cases "timeouts m")
     (auto simp: onlyRefTimer_def clearRefreshTimeout_def clearTimeout_of_def
       split: option.splits)

lemma clearRefreshTimeout_frame [simp]:
  "date_now (clearRefreshTimeout m) = date_now m"
  "next_handle (clearRefreshTimeout m) = next_handle m"
  "refreshTimeoutRef (clearRefreshTimeout m) = refreshTimeoutRef m"
  "stored_session (clearRefreshTimeout m) = stored_session m"
  by (simp_all add: clearRefreshTimeout_def clearTimeout_of_def split: option.splits)

lemma refreshDelay_clear [simp]:
  "refreshDelay expiresAt (clearRefreshTimeout m) = refreshDelay expiresAt m"
  by (simp add: refreshDelay_def)

lemma scheduleTokenRefresh_timeouts:
  assumes "onlyRefTimer m"
  shows "timeouts (scheduleTokenRefresh expiresAt m) =
           [(next_handle m,
             date_now m + max 0 (toInt32 (of_int (refreshDelay expiresAt m))))]"
    and "refreshTimeoutRef (scheduleTokenRefresh expiresAt m) = Some (next_handle m)"
    and "next_handle (scheduleTokenRefresh expiresAt m) = Suc (next_handle m)"
  using onlyRefTimer_clear [OF assms] refreshIn_eq [of expiresAt "clearRefreshTimeout m"]
  by (simp_all add: scheduleTokenRefresh_def setTimeout_ms_def Let_def)

lemma scheduleTokenRefresh_in_range:
  assumes "onlyRefTimer m" and "refreshDelay expiresAt m < 2 ^ 31"
  shows "timeouts (scheduleTokenRefresh expiresAt m) =
           [(next_handle m, date_now m + refreshDelay expiresAt m)]"
proof -
  have "0 \<le> refreshDelay expiresAt m"
    by (simp add: refreshDelay_def)
  then have "toInt32 (of_int (refreshDelay expiresAt m)) = refreshDelay expiresAt m"
    using assms(2) by (rule toInt32_in_range)
  then show ?thesis
    using \<open>0 \<le> refreshDelay expiresAt m\<close>
    by (simp add: scheduleTokenRefresh_timeouts(1) [OF assms(1)])
qed

lemma onlyRefTimer_schedule:
  "onlyRefTimer m \<Longrightarrow> onlyRefTimer (scheduleTokenRefresh expiresAt m)"
  by (simp add: onlyRefTimer_def [of "scheduleTokenRefresh expiresAt m"]
      scheduleTokenRefresh_timeouts)

lemma onlyRefTimer_clearRefreshTimeout:
  "onlyRefTimer m \<Longrightarrow> onlyRefTimer (clearRefreshTimeout m)"
  by (simp add: onlyRefTimer_def [of "clearRefreshTimeout m"] onlyRefTimer_clear)

lemma onlyRefTimer_setSession [simp]:
  "onlyRefTimer (setSession s m) = onlyRefTimer m"
  by (simp add: onlyRefTimer_def setSession_def)

lemma setSession_frame [simp]:
  "date_now (setSession s m) = date_now m"
  "next_handle (setSession s m) = next_handle m"
  "refreshDelay expiresAt (setSession s m) = refreshDelay expiresAt m"
  by (simp_all add: setSession_def refreshDelay_def)

lemma onlyRefTimer_fireDue: "onlyRefTimer m \<Longrightarrow> onlyRefTimer (fireDue m)"
  by (cases "timeouts m") (auto simp: onlyRefTimer_def fireDue_def)

lemma onlyRefTimer_step: "onlyRefTimer m \<Longrightarrow> onlyRefTimer (authStep e m)"
proof (cases e)
  case (TimePasses d)
  assume "onlyRefTimer m"
  then show ?thesis using TimePasses by (simp add: onlyRefTimer_def)
qed (auto simp: getSessionResolved_def onAuthStateChange_def refreshSettled_def
      effectCleanup_def Let_def onlyRefTimer_schedule onlyRefTimer_clearRefreshTimeout
      onlyRefTimer_fireDue split: option.splits)

lemma onlyRefTimer_run: "onlyRefTimer m \<Longrightarrow> onlyRefTimer (authRun es m)"
  by (induction es arbitrary: m) (simp_all add: onlyRefTimer_step)

lemma onlyRefTimer_mounted: "onlyRefTimer (mounted t)"
  by (simp add: onlyRefTimer_def mounted_def)

text \<open>In every state the mounted component can reach, at most one refresh timeout is set.\<close>

lemma single_refresh_timer: "length (timeouts (authRun es (mounted t))) \<le> 1"
  using onlyRefTimer_run [OF onlyRefTimer_mounted, of es t] by (simp add: onlyRefTimer_def)

text \<open>
  Within the range of the platform timer the schedule is the spec's: in a reachable state,
  observing a session with expiry \<open>expiresAt\<close> whose delay is below \<open>2^31\<close> ms leaves
  exactly one timeout, a new one, due that delay from now; an expiry one hour ahead is
  due 3300 s from now. The same holds at the four places that observe a session.
\<close>

lemma token_refresh_schedule:
  assumes "m = authRun es (mounted t)" and "refreshDelay expiresAt m < 2 ^ 31"
  shows "next_handle m \<notin> fst ` set (timeouts m)"
    and "timeouts (scheduleTokenRefresh expiresAt m) =
           [(next_handle m, date_now m + refreshDelay expiresAt m)]"
    and "expiresAt * 1000 = date_now m + 3600 * 1000 \<Longrightarrow>
           timeouts (scheduleTokenRefresh expiresAt m) =
             [(next_handle m, date_now m + 3300 * 1000)]"
    and "knownExpiry s = Some expiresAt \<Longrightarrow>
           timeouts (getSessionResolved s m) =
             [(next_handle m, date_now m + refreshDelay expiresAt m)]
           \<and> timeouts (onAuthStateChange SIGNED_IN s m) =
             [(next_handle m, date_now m + refreshDelay expiresAt m)]
           \<and> timeouts (onAuthStateChange TOKEN_REFRESHED s m) =
             [(next_handle m, date_now m + refreshDelay expiresAt m)]
           \<and> timeouts (refreshSettled s m) =
             [(next_handle m, date_now m + refreshDelay expiresAt m)]"
proof -
  have inv: "onlyRefTimer m"
    unfolding assms(1) by (rule onlyRefTimer_run [OF onlyRefTimer_mounted])
  show "next_handle m \<notin> fst ` set (timeouts m)"
    using inv by (auto simp: onlyRefTimer_def list_all_iff)
  show sched: "timeouts (scheduleTokenRefresh expiresAt m) =
      [(next_handle m, date_now m + refreshDelay expiresAt m)]"
    by (rule scheduleTokenRefresh_in_range [OF inv assms(2)])
  show "timeouts (scheduleTokenRefresh expiresAt m) = [(next_handle m, date_now m + 3300 * 1000)]"
    if "expiresAt * 1000 = date_now m + 3600 * 1000"
    using that sched by (simp add: refreshDelay_def)
  show "timeouts (getSessionResolved s m) =
        [(next_handle m, date_now m + refreshDelay expiresAt m)]
      \<and> timeouts (onAuthStateChange SIGNED_IN s m) =
        [(next_handle m, date_now m + refreshDelay expiresAt m)]
      \<and> timeouts (onAuthStateChange TOKEN_REFRESHED s m) =
        [(next_handle m, date_now m + refreshDelay expiresAt m)]
      \<and> timeouts (refreshSettled s m) =
        [(next_handle m, date_now m + refreshDelay expiresAt m)]"
    if k: "knownExpiry s = Some expiresAt"
  proof -
    from k obtain s' where s': "s = Some s'"
      by (cases s) (simp_all add: knownExpiry_def)
    have inv': "onlyRefTimer (setSession s m)" and d: "refreshDelay expiresAt (setSession s m) < 2 ^ 31"
      using inv assms(2) by simp_all
    have "timeouts (scheduleTokenRefresh expiresAt (setSession s m)) =
        [(next_handle m, date_now m + refreshDelay expiresAt m)]"
      using scheduleTokenRefresh_in_range [OF inv' d] by simp
    then show ?thesis
      using k by (simp add: getSessionResolved_def onAuthStateChange_def refreshSettled_def
          Let_def s')
  qed
qed

text \<open>
  Mounted at \<open>now = 1000 s\<close>, a session expiring at 4600 s is loaded; the timeout fires
  at 4300 s, not a millisecond earlier, and the refresh returns a session expiring at
  7900 s, for which the one timeout is due at 7600 s.
\<close>

definition ex_steps :: "AuthStep list" where
  "ex_steps = [GetSessionResolved (Some ex_session), TimePasses 3300000, TimeoutFires]"

definition ex_session_refreshed :: Session where
  "ex_session_refreshed = \<lparr> user_id = ''bob'', expires_at = Some 7900 \<rparr>"

lemma ex_first_schedule:
  "authRun [GetSessionResolved (Some ex_session)] (mounted 1000000) =
     \<lparr> date_now = 1000000, timeouts = [(1, 4300000)], next_handle = 2,
       refreshTimeoutRef = Some 1, stored_session = Some ex_session \<rparr>"
  by (simp add: mounted_def getSessionResolved_def setSession_def knownExpiry_def
      ex_session_def scheduleTokenRefresh_def clearRefreshTimeout_def setTimeout_ms_def
      REFRESH_MARGIN_MS_def toInt32_def Let_def)

lemma ex_steps_eq:
  "authRun ex_steps (mounted 1000000) =
     \<lparr> date_now = 4300000, timeouts = [], next_handle = 2,
       refreshTimeoutRef = Some 1, stored_session = Some ex_session \<rparr>"
  using ex_first_schedule by (simp add: ex_steps_def fireDue_def)

lemma ex_refresh_loop:
  "timeouts (authRun [GetSessionResolved (Some ex_session), TimePasses 3299999, TimeoutFires]
      (mounted 1000000)) = [(1, 4300000)]"
  "timeouts (authRun ex_steps (mounted 1000000)) = []"
  "timeouts (refreshSettled (Some ex_session_refreshed) (authRun ex_steps (mounted 1000000))) =
     [(2, 7600000)]"
proof -
  show "timeouts (authRun [GetSessionResolved (Some ex_session), TimePasses 3299999,
      TimeoutFires] (mounted 1000000)) = [(1, 4300000)]"
    using ex_first_schedule by (simp add: fireDue_def)
  show "timeouts (authRun ex_steps (mounted 1000000)) = []"
    by (simp add: ex_steps_eq)
  have k: "knownExpiry (Some ex_session_refreshed) = Some 7900"
    by (simp add: knownExpiry_def ex_session_refreshed_def)
  have d: "refreshDelay 7900 (authRun ex_steps (mounted 1000000)) = 3300000"
    by (simp add: ex_steps_eq refreshDelay_def)
  have "timeouts (refreshSettled (Some ex_session_refreshed) (authRun ex_steps (mounted 1000000))) =
      [(next_handle (authRun ex_steps (mounted 1000000)),
        date_now (authRun ex_steps (mounted 1000000)) +
          refreshDelay 7900 (authRun ex_steps (mounted 1000000)))]"
    using token_refresh_schedule(4) [OF refl _ k, of ex_steps 1000000] d by simp
  then show "timeouts (refreshSettled (Some ex_session_refreshed)
      (authRun ex_steps (mounted 1000000))) = [(2, 7600000)]"
    by (simp add: d) (simp add: ex_steps_eq)
qed

text \<open>
  C7 at an input where the code departs from it. Mounted at \<open>now = 1000 s\<close>, a session
  expiring 30 days later (at 2593000 s) is observed. The spec's delay is 2591700000 ms,
  five minutes less than 30 days, and that is the number the component passes to
  \<open>setTimeout\<close>; it is above \<open>2^31 - 1\<close>, wraps to a negative timeout and counts as 0. The
  one timeout is due now, and fires with no time passing: the refresh is not scheduled
  five minutes before expiry but runs at once.
\<close>

theorem refresh_runs_at_once_for_long_expiry:
  "refreshDelay 2593000 (mounted 1000000) = 2591700000
   \<and> toInt32 2591700000 = - 1703267296
   \<and> timeouts (scheduleTokenRefresh 2593000 (mounted 1000000)) = [(1, 1000000)]
   \<and> date_now (scheduleTokenRefresh 2593000 (mounted 1000000)) = 1000000
   \<and> timeouts (authRun [TimeoutFires] (scheduleTokenRefresh 2593000 (mounted 1000000))) = []"
proof -
  have d: "refreshDelay 2593000 (mounted 1000000) = 2591700000"
    by (simp add: refreshDelay_def mounted_def)
  have wrap: "toInt32 2591700000 = - 1703267296"
    by (simp add: toInt32_def Let_def)
  have sched: "timeouts (scheduleTokenRefresh 2593000 (mounted 1000000)) = [(1, 1000000)]"
    using scheduleTokenRefresh_timeouts(1) [OF onlyRefTimer_mounted, of 2593000 1000000] wrap
    by (simp add: d) (simp add: mounted_def)
  have now: "date_now (scheduleTokenRefresh 2593000 (mounted 1000000)) = 1000000"
    by (simp add: scheduleTokenRefresh_def setTimeout_ms_def clearRefreshTimeout_def
        mounted_def Let_def split: prod.splits)
  show ?thesis
    using d wrap sched now by (simp add: fireDue_def)
qed

end
